theory Spec2Isabelle
  imports Main "HOL-Library.AList"
begin

section \<open>The F* language-server bridge (server.ts)\<close>

text \<open>
  The server keeps one F* subprocess per open document, writes queries to its standard
  input and turns the newline-separated JSON messages of its standard output into
  diagnostics and status notifications for the editor.  This theory embeds the
  functions of \<^verbatim>\<open>src/server/src/server.ts\<close> that do this work and proves
  properties of them.

  Conventions of the embedding.
  \<^item> A JavaScript exception is a value: a pure computation returns \<open>js_error + 'a\<close>
    (\<open>Inl\<close> the exception), a handler returns its outcome together with the server
    state it leaves behind, because what was sent before a \<^verbatim>\<open>throw\<close> stays sent.
  \<^item> JavaScript numbers are IEEE doubles.  The numbers of this program are line and
    column numbers and a query counter; they are integers, and the arithmetic done on
    them (\<^verbatim>\<open>pos[0] - 1\<close>, \<^verbatim>\<open>qid + 1\<close>) is exact on doubles of
    magnitude below \<open>2^53\<close>.  They are modelled as \<open>int\<close> and \<open>nat\<close>.
  \<^item> \<^verbatim>\<open>undefined\<close> is \<open>None\<close> of an option type.
\<close>

subsection \<open>Values\<close>

text \<open>
  What \<^verbatim>\<open>JSON.parse\<close> returns.  A number is an integer, as the line numbers,
  column numbers and counters of the F* protocol are.  An object is the list of its
  properties in insertion order, each name once; its property \<open>k\<close> is \<open>map_of kvs k\<close>.
\<close>

datatype json =
    JNull
  | JBool bool
  | JNumber int
  | JString string
  | JArray "json list"
  | JObject "(string \<times> json) list"

datatype js_error =
    SyntaxError  \<comment> \<open>thrown by \<^verbatim>\<open>JSON.parse\<close>\<close>
  | TypeError    \<comment> \<open>a property of \<^verbatim>\<open>undefined\<close> or \<^verbatim>\<open>null\<close> is read, or a non-function is called\<close>
  | InvalidArguments  \<comment> \<open>the \<^verbatim>\<open>Error\<close> that \<^verbatim>\<open>Range.create\<close> throws:
                     \<^verbatim>\<open>Range#create called with invalid arguments\<close>\<close>
  | IllTyped     \<comment> \<open>not an exception: a value of type \<^verbatim>\<open>any\<close> that does not have the type
                     the TypeScript code declares for it reaches typed code; what JavaScript
                     computes from there on (implicit conversions) is outside the model\<close>

subsection \<open>Positions, ranges, diagnostics (vscode-languageserver types)\<close>

text \<open>
  A coordinate of a \<^verbatim>\<open>Position\<close>.  The declared type is \<^verbatim>\<open>number\<close>;
  \<^verbatim>\<open>mkPosition\<close> can also produce \<^verbatim>\<open>NaN\<close> (from \<^verbatim>\<open>undefined - 1\<close>)
  and \<^verbatim>\<open>undefined\<close>, when the array it reads is too short.
\<close>

datatype coordinate = Num int | NaN | Undefined

record Position =
  line :: coordinate
  character :: coordinate

record Range =
  start :: Position
  end' :: Position

datatype DiagnosticSeverity = Error | Warning | Information | Hint

record Diagnostic =
  severity :: DiagnosticSeverity
  range' :: Range
  message :: string

text \<open>
  Reading \<^verbatim>\<open>xs[i]\<close> from a JavaScript array: \<^verbatim>\<open>undefined\<close> out of range, no
  exception.
\<close>

definition index :: "'a list \<Rightarrow> nat \<Rightarrow> 'a option" where
  "index xs i = (if i < length xs then Some (xs ! i) else None)"

text \<open>
  \<^verbatim>\<open>
  function mkPosition(pos: number []) : Position {
      //F* line numbers begin at 1; unskew
      return Position.create(pos[0] - 1, pos[1]);
  }\<close>
  \<^verbatim>\<open>Position.create\<close> is the library's constructor of \<^verbatim>\<open>{line, character}\<close>;
  it checks nothing (it replaces a coordinate equal to \<^verbatim>\<open>Number.MAX_VALUE\<close>, a
  magnitude far above \<open>2^53\<close>, by \<open>2147483647\<close>).
  Subtracting one from \<^verbatim>\<open>undefined\<close> gives \<^verbatim>\<open>NaN\<close>.
\<close>

definition mkPosition :: "int list \<Rightarrow> Position" where
  "mkPosition pos =
     \<lparr> line = (case index pos 0 of Some l \<Rightarrow> Num (l - 1) | None \<Rightarrow> NaN),
       character = (case index pos 1 of Some c \<Rightarrow> Num c | None \<Rightarrow> Undefined) \<rparr>"

text \<open>
  \<^verbatim>\<open>Range.create\<close> of the library (vscode-languageserver-types), unlike
  \<^verbatim>\<open>Position.create\<close>, checks its arguments:
  \<^verbatim>\<open>
  function create(one, two, three, four) {
      if (Is.uinteger(one) && Is.uinteger(two) && Is.uinteger(three) && Is.uinteger(four)) {
          return { start: Position.create(one, two), end: Position.create(three, four) };
      } else if (Position.is(one) && Position.is(two)) {
          return { start: one, end: two };
      } else {
          throw new Error("Range#create called with invalid arguments...");
      }
  }\<close>
  where \<^verbatim>\<open>Position.is(p)\<close> holds of an object whose \<^verbatim>\<open>line\<close> and
  \<^verbatim>\<open>character\<close> both satisfy \<^verbatim>\<open>Is.uinteger\<close>, and \<^verbatim>\<open>Is.uinteger(v)\<close>
  holds of a number with \<^verbatim>\<open>0 <= v && v <= 2147483647\<close>.  Both comparisons are false
  of \<^verbatim>\<open>NaN\<close>, and \<^verbatim>\<open>undefined\<close> is not a number.  The server calls
  \<^verbatim>\<open>Range.create\<close> with two positions, so the first test fails (a position is not a
  number) and the second decides.
\<close>

definition uinteger :: "coordinate \<Rightarrow> bool" where
  "uinteger v = (case v of Num n \<Rightarrow> 0 \<le> n \<and> n \<le> 2147483647 | NaN \<Rightarrow> False | Undefined \<Rightarrow> False)"

definition Position_is :: "Position \<Rightarrow> bool" where
  "Position_is p = (uinteger (line p) \<and> uinteger (character p))"

definition Range_create :: "Position \<Rightarrow> Position \<Rightarrow> js_error + Range" where
  "Range_create one two =
     (if Position_is one \<and> Position_is two then Inr \<lparr> start = one, end' = two \<rparr>
      else Inl InvalidArguments)"

subsection \<open>JavaScript operations on values of type any\<close>

text \<open>
  The decimal text of a number, as \<^verbatim>\<open>'' + n\<close> gives it for an integer of magnitude
  below \<open>10^21\<close>.
\<close>

fun show_nat :: "nat \<Rightarrow> string" where
  "show_nat n =
     (if n < 10 then [char_of (48 + n)]
      else show_nat (n div 10) @ [char_of (48 + n mod 10)])"

declare show_nat.simps [simp del]

definition show_int :: "int \<Rightarrow> string" where
  "show_int i = (if i < 0 then CHR ''-'' # show_nat (nat (- i)) else show_nat (nat i))"

fun join_comma :: "string list \<Rightarrow> string" where
  "join_comma [] = []"
| "join_comma [x] = x"
| "join_comma (x # y # ys) = x @ CHR '','' # join_comma (y # ys)"

text \<open>
  The conversion of a parsed value to a string, as string concatenation and \<^verbatim>\<open>==\<close>
  apply it.  An array is the texts of its elements joined by commas, with \<^verbatim>\<open>null\<close>
  elements empty.  A plain object is \<^verbatim>\<open>[object Object]\<close>, unless it has a property
  of its own named \<^verbatim>\<open>toString\<close>: that property hides the method of the prototype,
  it is not a function, and the conversion throws a \<^verbatim>\<open>TypeError\<close> (the result
  \<open>None\<close>).
\<close>

fun to_string :: "json \<Rightarrow> string option" where
  "to_string JNull = Some ''null''"
| "to_string (JBool b) = Some (if b then ''true'' else ''false'')"
| "to_string (JNumber n) = Some (show_int n)"
| "to_string (JString s) = Some s"
| "to_string (JArray xs) =
     map_option join_comma (those (map (\<lambda>x. if x = JNull then Some [] else to_string x) xs))"
| "to_string (JObject kvs) =
     (if map_of kvs ''toString'' = None then Some ''[object Object]'' else None)"

text \<open>
  \<^verbatim>\<open>v == lit\<close> for a string literal \<open>lit\<close> that is not the text of a number (every
  literal this program compares with is such): a string equals by content, an array or
  object is converted to a string first, a number or boolean compares with the
  literal's numeric value, which is \<^verbatim>\<open>NaN\<close>, and \<^verbatim>\<open>undefined\<close> and
  \<^verbatim>\<open>null\<close> equal no string.
\<close>

definition loose_eq :: "json option \<Rightarrow> string \<Rightarrow> js_error + bool" where
  "loose_eq v lit =
     (case v of
        None \<Rightarrow> Inr False
      | Some JNull \<Rightarrow> Inr False
      | Some (JBool b) \<Rightarrow> Inr False
      | Some (JNumber n) \<Rightarrow> Inr False
      | Some (JString s) \<Rightarrow> Inr (s = lit)
      | Some (JArray xs) \<Rightarrow>
          (case to_string (JArray xs) of None \<Rightarrow> Inl TypeError | Some txt \<Rightarrow> Inr (txt = lit))
      | Some (JObject kvs) \<Rightarrow>
          (case to_string (JObject kvs) of None \<Rightarrow> Inl TypeError | Some txt \<Rightarrow> Inr (txt = lit)))"

text \<open>\<^verbatim>\<open>a && b\<close> for conditions that can throw: \<open>b\<close> counts only when \<open>a\<close> is true.\<close>

definition and_also :: "js_error + bool \<Rightarrow> js_error + bool \<Rightarrow> js_error + bool" where
  "and_also a b = (case a of Inl e \<Rightarrow> Inl e | Inr x \<Rightarrow> if x then b else Inr False)"

text \<open>\<^verbatim>\<open>!v\<close> is \<open>\<not> truthy v\<close>.\<close>

definition truthy :: "json option \<Rightarrow> bool" where
  "truthy v =
     (case v of
        None \<Rightarrow> False
      | Some JNull \<Rightarrow> False
      | Some (JBool b) \<Rightarrow> b
      | Some (JNumber n) \<Rightarrow> n \<noteq> 0
      | Some (JString s) \<Rightarrow> s \<noteq> []
      | Some (JArray xs) \<Rightarrow> True
      | Some (JObject kvs) \<Rightarrow> True)"

text \<open>
  \<^verbatim>\<open>v.k\<close> for a value that is neither \<^verbatim>\<open>undefined\<close> nor \<^verbatim>\<open>null\<close>, and a
  property name \<open>k\<close> that no prototype defines (\<^verbatim>\<open>kind\<close>, \<^verbatim>\<open>level\<close>,
  \<^verbatim>\<open>status\<close>, \<^verbatim>\<open>response\<close>, \<^verbatim>\<open>contents\<close>, \<^verbatim>\<open>stage\<close>,
  \<^verbatim>\<open>ranges\<close>, \<^verbatim>\<open>beg\<close>, \<^verbatim>\<open>end\<close>, \<^verbatim>\<open>message\<close>): an object's
  own property, and \<^verbatim>\<open>undefined\<close> on every other value.
\<close>

definition get_prop :: "json \<Rightarrow> string \<Rightarrow> json option" where
  "get_prop v k = (case v of JObject kvs \<Rightarrow> map_of kvs k | _ \<Rightarrow> None)"

text \<open>\<^verbatim>\<open>v.k\<close> for any value: reading a property of \<^verbatim>\<open>undefined\<close> or \<^verbatim>\<open>null\<close> throws.\<close>

definition read_prop :: "json option \<Rightarrow> string \<Rightarrow> js_error + json option" where
  "read_prop v k =
     (case v of
        None \<Rightarrow> Inl TypeError
      | Some w \<Rightarrow> if w = JNull then Inl TypeError else Inr (get_prop w k))"

subsection \<open>The declared types of the F* messages\<close>

text \<open>
  \<^verbatim>\<open>
  interface IdeError {
      message: string;
      ranges:  {beg: number []; end: number []} [];
  }\<close>
\<close>

record IdeRange =
  beg :: "int list"
  end_pos :: "int list"

record IdeError =
  message :: string
  ranges :: "IdeRange list"

text \<open>
  TypeScript passes a value of type \<^verbatim>\<open>any\<close> to a typed parameter unchecked.  The
  functions below say when a parsed value has the declared type, and give its typed
  reading; properties the type does not name are ignored.
\<close>

fun as_numbers :: "json list \<Rightarrow> int list option" where
  "as_numbers [] = Some []"
| "as_numbers (JNumber n # vs) = map_option ((#) n) (as_numbers vs)"
| "as_numbers (v # vs) = None"

definition as_number_array :: "json option \<Rightarrow> int list option" where
  "as_number_array v = (case v of Some (JArray vs) \<Rightarrow> as_numbers vs | _ \<Rightarrow> None)"

definition as_IdeRange :: "json \<Rightarrow> IdeRange option" where
  "as_IdeRange v =
     (case as_number_array (get_prop v ''beg'') of
        None \<Rightarrow> None
      | Some b \<Rightarrow>
          (case as_number_array (get_prop v ''end'') of
             None \<Rightarrow> None
           | Some e \<Rightarrow> Some \<lparr> beg = b, end_pos = e \<rparr>))"

fun as_list :: "('a \<Rightarrow> 'b option) \<Rightarrow> 'a list \<Rightarrow> 'b list option" where
  "as_list f [] = Some []"
| "as_list f (v # vs) =
     (case f v of
        None \<Rightarrow> None
      | Some x \<Rightarrow> map_option ((#) x) (as_list f vs))"

definition as_IdeError :: "json \<Rightarrow> IdeError option" where
  "as_IdeError v =
     (case get_prop v ''message'' of
        Some (JString m) \<Rightarrow>
          (case get_prop v ''ranges'' of
             Some (JArray rs) \<Rightarrow>
               map_option (\<lambda>rs'. \<lparr> IdeError.message = m, ranges = rs' \<rparr>) (as_list as_IdeRange rs)
           | _ \<Rightarrow> None)
      | _ \<Rightarrow> None)"

definition as_IdeError_array :: "json option \<Rightarrow> IdeError list option" where
  "as_IdeError_array v = (case v of Some (JArray es) \<Rightarrow> as_list as_IdeError es | _ \<Rightarrow> None)"

subsection \<open>The server state\<close>

text \<open>
  \<^verbatim>\<open>
  interface ExampleSettings { maxNumberOfProblems: number; }
  interface IDEState { fstar_ide: cp.ChildProcess; last_query_id: number; }
  const documentSettings: Map<string, Thenable<ExampleSettings>> = new Map();
  const documentState: Map<string, IDEState> = new Map();\<close>

  A \<^verbatim>\<open>Map\<close> is the list of its entries in insertion order; \<^verbatim>\<open>get\<close> is
  \<open>map_of\<close>, \<^verbatim>\<open>set\<close> is \<open>AList.update\<close> (the value of a key that is present is
  replaced where it stands, a new key is appended), \<^verbatim>\<open>delete\<close> is \<open>AList.delete\<close>.
  \<open>fstar_ide\<close> is a reference to a child process object: an index into the list of
  the processes spawned so far.
\<close>

record ExampleSettings =
  maxNumberOfProblems :: nat

record IDEState =
  fstar_ide :: nat
  last_query_id :: nat

record TextDocument =
  uri :: string
  getText :: string

text \<open>
  What was written to a child's standard input: the text \<^verbatim>\<open>JSON.stringify\<close>
  makes of an object (kept as the object), or a literal text.
\<close>

datatype written = Stringified "(string \<times> json) list" | Text string

text \<open>
  A child process, as \<^verbatim>\<open>cp.spawn(command, args, {cwd})\<close> starts it.  \<open>running\<close>
  holds until the server terminates it; \<open>on_data\<close> is the document that the listener
  registered on its standard output passes to the dispatcher.
\<close>

record ChildProcess =
  command :: string
  args :: "string list"
  cwd :: string
  running :: bool
  stdin :: "written list"
  on_data :: "TextDocument option"

text \<open>What the server sends to the editor over the connection.\<close>

datatype outbound =
    PublishDiagnostics string "Diagnostic list"
      \<comment> \<open>\<^verbatim>\<open>connection.sendDiagnostics({uri, diagnostics})\<close>\<close>
  | CustomStatusOk string "Range list"
      \<comment> \<open>\<^verbatim>\<open>connection.sendNotification('custom/statusOk', {uri, ranges})\<close>\<close>
  | CustomStatusClear string
      \<comment> \<open>\<^verbatim>\<open>connection.sendNotification('custom/statusClear', {uri})\<close>\<close>

text \<open>The branch of the dispatcher's \<^verbatim>\<open>if\<close> chain that a parsed message takes.\<close>

datatype route =
    ToProtocolInfo
  | ToProgress
  | ToFailure
  | FailureWithoutPayload
  | ToSuccess
  | Unhandled

text \<open>
  The two maps, the child processes, and what the server has emitted so far, oldest
  first.  \<open>routed\<close> is ghost state: it records each routing the dispatcher performs and
  no function reads it.
\<close>

record server =
  documentSettings :: "(string \<times> ExampleSettings) list"
  documentState :: "(string \<times> IDEState) list"
  children :: "ChildProcess list"
  connection :: "outbound list"
  console :: "string list"
  routed :: "route list"

definition init_server :: server where
  "init_server =
     \<lparr> documentSettings = [], documentState = [], children = [],
       connection = [], console = [], routed = [] \<rparr>"

type_synonym outcome = "(js_error + unit) \<times> server"

definition console_log :: "string \<Rightarrow> server \<Rightarrow> server" where
  "console_log txt s = s\<lparr> console := console s @ [txt] \<rparr>"

definition send :: "outbound \<Rightarrow> server \<Rightarrow> server" where
  "send m s = s\<lparr> connection := connection s @ [m] \<rparr>"

definition record_route :: "route \<Rightarrow> server \<Rightarrow> server" where
  "record_route r s = s\<lparr> routed := routed s @ [r] \<rparr>"

text \<open>
  \<^verbatim>\<open>child.stdin.write(w)\<close> on the child with handle \<open>p\<close>.  A handle that the server
  holds is the handle of a child; for any other number nothing is written.
\<close>

definition stdin_write :: "nat \<Rightarrow> written \<Rightarrow> server \<Rightarrow> server" where
  "stdin_write p w s =
     (case index (children s) p of
        None \<Rightarrow> s
      | Some child \<Rightarrow>
          s\<lparr> children := (children s)[p := child\<lparr> stdin := stdin child @ [w] \<rparr>] \<rparr>)"

text \<open>
  \<^verbatim>\<open>xs.forEach(f)\<close>: the calls run in order, and an exception thrown by one of them
  ends the loop with what the earlier calls did.
\<close>

fun forEach :: "('a \<Rightarrow> server \<Rightarrow> outcome) \<Rightarrow> 'a list \<Rightarrow> server \<Rightarrow> outcome" where
  "forEach f [] s = (Inr (), s)"
| "forEach f (x # xs) s =
     (case f x s of
        (Inl e, s') \<Rightarrow> (Inl e, s')
      | (Inr u, s') \<Rightarrow> forEach f xs s')"

subsection \<open>Notifications\<close>

text \<open>
  \<^verbatim>\<open>
  function sendStatusOk (msg : StatusOkMessage)  {
      console.log("Sending statusOk notification: " +msg);
      connection.sendNotification('custom/statusOk', msg);
  }
  function sendStatusClear (msg: StatusClearMessage) {
      console.log("Sending statusClear notification: " +msg);
      connection.sendNotification('custom/statusClear', msg);
  }\<close>
  The message is an object, so the text appended to the log line is
  \<^verbatim>\<open>[object Object]\<close>.
\<close>

definition sendStatusOk :: "string \<Rightarrow> Range list \<Rightarrow> server \<Rightarrow> server" where
  "sendStatusOk u rs s =
     send (CustomStatusOk u rs)
       (console_log ''Sending statusOk notification: [object Object]'' s)"

definition sendStatusClear :: "string \<Rightarrow> server \<Rightarrow> server" where
  "sendStatusClear u s =
     send (CustomStatusClear u)
       (console_log ''Sending statusClear notification: [object Object]'' s)"

subsection \<open>The translator: one handler per kind of message\<close>

text \<open>
  \<^verbatim>\<open>
  function handleIdeProtocolInfo(textDocument: TextDocument, r : any) {
      console.log ("FStar ide returned protocol info");
  }\<close>
\<close>

definition handleIdeProtocolInfo :: "TextDocument \<Rightarrow> json \<Rightarrow> server \<Rightarrow> outcome" where
  "handleIdeProtocolInfo textDocument r s =
     (Inr (), console_log ''FStar ide returned protocol info'' s)"

text \<open>
  The call \<^verbatim>\<open>mkPosition(v)\<close> with an argument of type \<^verbatim>\<open>any\<close>: reading
  \<^verbatim>\<open>pos[0]\<close> throws when \<open>v\<close> is \<^verbatim>\<open>undefined\<close> or \<^verbatim>\<open>null\<close>.
\<close>

definition mkPosition_any :: "json option \<Rightarrow> js_error + Position" where
  "mkPosition_any v =
     (case v of
        None \<Rightarrow> Inl TypeError
      | Some w \<Rightarrow>
          if w = JNull then Inl TypeError
          else (case as_number_array (Some w) of
                  None \<Rightarrow> Inl IllTyped
                | Some pos \<Rightarrow> Inr (mkPosition pos)))"

text \<open>
  \<^verbatim>\<open>
  function handleIdeProgress(textDocument: TextDocument, contents : any) {
      if (contents.stage == "full-buffer-fragment-ok" ) {
          const rng = contents.ranges;
          const ok_range = Range.create(mkPosition(rng.beg), mkPosition(rng.end));
          const msg = { uri: textDocument.uri, ranges: [ok_range] };
          sendStatusOk(msg);
      }
  }\<close>
  The arguments of \<^verbatim>\<open>Range.create\<close> are evaluated from left to right, then
  \<^verbatim>\<open>Range.create\<close> checks the two positions and throws when a coordinate of one of
  them is not an integer from \<open>0\<close> to \<open>2147483647\<close>; nothing has been logged or sent
  by then.
\<close>

definition handleIdeProgress :: "TextDocument \<Rightarrow> json option \<Rightarrow> server \<Rightarrow> outcome" where
  "handleIdeProgress textDocument contents s =
     (case read_prop contents ''stage'' of
        Inl e \<Rightarrow> (Inl e, s)
      | Inr stage \<Rightarrow>
          (case loose_eq stage ''full-buffer-fragment-ok'' of
             Inl e \<Rightarrow> (Inl e, s)
           | Inr eq \<Rightarrow>
               if eq then
                 (case read_prop contents ''ranges'' of
                    Inl e \<Rightarrow> (Inl e, s)
                  | Inr rng \<Rightarrow>
                      (case read_prop rng ''beg'' of
                         Inl e \<Rightarrow> (Inl e, s)
                       | Inr b \<Rightarrow>
                           (case mkPosition_any b of
                              Inl e \<Rightarrow> (Inl e, s)
                            | Inr p1 \<Rightarrow>
                                (case read_prop rng ''end'' of
                                   Inl e \<Rightarrow> (Inl e, s)
                                 | Inr en \<Rightarrow>
                                     (case mkPosition_any en of
                                        Inl e \<Rightarrow> (Inl e, s)
                                      | Inr p2 \<Rightarrow>
                                          (case Range_create p1 p2 of
                                             Inl e \<Rightarrow> (Inl e, s)
                                           | Inr ok_range \<Rightarrow>
                                               (Inr (), sendStatusOk (uri textDocument)
                                                          [ok_range] s)))))))
               else (Inr (), s)))"

text \<open>
  \<^verbatim>\<open>
  function handleIdeFailure (textDocument : TextDocument, response : IdeError []) {
      response.forEach((err) => {
          const rng = err.ranges[0];
          const diag = {
              severity: DiagnosticSeverity.Error,
              range: { start: mkPosition(rng.beg), end: mkPosition(rng.end) },
              message: err.message
          };
          connection.sendDiagnostics({uri:textDocument.uri, diagnostics:[diag]});
      });
  }\<close>
  \<^verbatim>\<open>err.ranges[0]\<close> is \<^verbatim>\<open>undefined\<close> when the array is empty, and reading
  \<^verbatim>\<open>rng.beg\<close> from it throws.
\<close>

definition handleIdeFailure_entry :: "TextDocument \<Rightarrow> IdeError \<Rightarrow> server \<Rightarrow> outcome" where
  "handleIdeFailure_entry textDocument err s =
     (case index (ranges err) 0 of
        None \<Rightarrow> (Inl TypeError, s)
      | Some rng \<Rightarrow>
          (let diag = \<lparr> severity = Error,
                        range' = \<lparr> start = mkPosition (beg rng), end' = mkPosition (end_pos rng) \<rparr>,
                        Diagnostic.message = IdeError.message err \<rparr>
           in (Inr (), send (PublishDiagnostics (uri textDocument) [diag]) s)))"

definition handleIdeFailure :: "TextDocument \<Rightarrow> IdeError list \<Rightarrow> server \<Rightarrow> outcome" where
  "handleIdeFailure textDocument response s =
     forEach (handleIdeFailure_entry textDocument) response s"

text \<open>
  \<^verbatim>\<open>
  function handleIdeSuccess (textDocument : TextDocument, response : any) {
      return;
  }\<close>
\<close>

definition handleIdeSuccess :: "TextDocument \<Rightarrow> json option \<Rightarrow> server \<Rightarrow> outcome" where
  "handleIdeSuccess textDocument response s = (Inr (), s)"

subsection \<open>The response dispatcher\<close>

text \<open>
  \<^verbatim>\<open>
  function handleOneResponseForDocument(textDocument: TextDocument, data:string) {
      if (data == "") { return; }
      const r = JSON.parse(data);
      if (r.kind == "protocol-info") {
          return handleIdeProtocolInfo(textDocument, r);
      }
      else if (r.kind == "message" && r.level == "progress") {
          return handleIdeProgress(textDocument, r.contents);
      }
      else if (r.kind == "response" && r.status == "failure") {
          if (!r.response) { return; }
          return handleIdeFailure(textDocument, r.response);
      }
      else if (r.kind == "response" && r.status == "success") {
          return handleIdeSuccess(textDocument, r.response);
      }
      else {
          console.log("Unhandled response: " + r.kind);
      }
  }\<close>
  \<^verbatim>\<open>JSON.parse\<close> belongs to the JavaScript runtime: it is the parameter \<open>parse\<close>,
  with \<open>None\<close> where it throws its \<^verbatim>\<open>SyntaxError\<close>.  Reading \<^verbatim>\<open>r.kind\<close>
  throws when \<open>r\<close> is \<^verbatim>\<open>null\<close>; after that \<open>r\<close> is known not to be.
  A comparison can throw, and then the message is not routed: \<open>if_else\<close> is
  \<^verbatim>\<open>if (c) \<dots> else \<dots>\<close> for such a condition.  The failure handler is typed:
  a payload that is not an \<^verbatim>\<open>IdeError []\<close> leaves the model.  The bodies of the third
  and of the last branch are \<open>failure_branch\<close> and \<open>unhandled_branch\<close>.
\<close>

definition failure_branch :: "TextDocument \<Rightarrow> json \<Rightarrow> server \<Rightarrow> outcome" where
  "failure_branch textDocument r s =
     (if \<not> truthy (get_prop r ''response'') then
        (Inr (), record_route FailureWithoutPayload s)
      else
        (case as_IdeError_array (get_prop r ''response'') of
           None \<Rightarrow> (Inl IllTyped, record_route ToFailure s)
         | Some response \<Rightarrow> handleIdeFailure textDocument response (record_route ToFailure s)))"

definition unhandled_branch :: "json \<Rightarrow> server \<Rightarrow> outcome" where
  "unhandled_branch r s =
     (case (case get_prop r ''kind'' of None \<Rightarrow> Some ''undefined'' | Some k \<Rightarrow> to_string k) of
        None \<Rightarrow> (Inl TypeError, record_route Unhandled s)
      | Some txt \<Rightarrow>
          (Inr (), console_log (''Unhandled response: '' @ txt) (record_route Unhandled s)))"

definition if_else ::
  "js_error + bool \<Rightarrow> (server \<Rightarrow> outcome) \<Rightarrow> (server \<Rightarrow> outcome) \<Rightarrow> server \<Rightarrow> outcome" where
  "if_else c yes no s =
     (case c of Inl e \<Rightarrow> (Inl e, s) | Inr x \<Rightarrow> if x then yes s else no s)"

definition route_message :: "TextDocument \<Rightarrow> json \<Rightarrow> server \<Rightarrow> outcome" where
  "route_message textDocument r s =
     (if r = JNull then (Inl TypeError, s)
      else
        if_else (loose_eq (get_prop r ''kind'') ''protocol-info'')
          (\<lambda>s. handleIdeProtocolInfo textDocument r (record_route ToProtocolInfo s))
       (if_else (and_also (loose_eq (get_prop r ''kind'') ''message'')
                          (loose_eq (get_prop r ''level'') ''progress''))
          (\<lambda>s. handleIdeProgress textDocument (get_prop r ''contents'')
                 (record_route ToProgress s))
       (if_else (and_also (loose_eq (get_prop r ''kind'') ''response'')
                          (loose_eq (get_prop r ''status'') ''failure''))
          (failure_branch textDocument r)
       (if_else (and_also (loose_eq (get_prop r ''kind'') ''response'')
                          (loose_eq (get_prop r ''status'') ''success''))
          (\<lambda>s. handleIdeSuccess textDocument (get_prop r ''response'')
                 (record_route ToSuccess s))
          (unhandled_branch r)))) s)"

definition handleOneResponseForDocument ::
  "(string \<Rightarrow> json option) \<Rightarrow> TextDocument \<Rightarrow> string \<Rightarrow> server \<Rightarrow> outcome" where
  "handleOneResponseForDocument parse textDocument data s =
     (if data = [] then (Inr (), s)
      else (case parse data of
              None \<Rightarrow> (Inl SyntaxError, s)
            | Some r \<Rightarrow> route_message textDocument r s))"

text \<open>
  \<^verbatim>\<open>data.split('\n')\<close>: the segments between the newlines; a text without a newline
  is one segment, and a text that ends in a newline has an empty last segment.
\<close>

fun split_newline :: "string \<Rightarrow> string list" where
  "split_newline [] = [[]]"
| "split_newline (c # cs) =
     (if c = CHR 0x0A then [] # split_newline cs
      else (case split_newline cs of
              [] \<Rightarrow> [[c]]
            | l # ls \<Rightarrow> (c # l) # ls))"

text \<open>
  \<^verbatim>\<open>
  function handleFStarResponseForDocument(textDocument: TextDocument, data:string) {
      const lines = data.toString().split('\n');
      lines.forEach(line => { handleOneResponseForDocument(textDocument, line);  });
  }\<close>
\<close>

definition handleFStarResponseForDocument ::
  "(string \<Rightarrow> json option) \<Rightarrow> TextDocument \<Rightarrow> string \<Rightarrow> server \<Rightarrow> outcome" where
  "handleFStarResponseForDocument parse textDocument data s =
     forEach (handleOneResponseForDocument parse textDocument) (split_newline data) s"

subsection \<open>The query encoder\<close>

text \<open>
  \<^verbatim>\<open>
  function sendRequestForDocument(textDocument : TextDocument, msg:any) {
      const doc_state = documentState.get(textDocument.uri);
      if (!doc_state) {
          return;
      }
      else {
          const qid = doc_state.last_query_id;
          doc_state.last_query_id = qid + 1;
          msg["query-id"] = '' + (qid + 1);
          const text = JSON.stringify(msg);
          doc_state?.fstar_ide?.stdin?.write(text);
          doc_state?.fstar_ide?.stdin?.write("\n");
      }
  }\<close>
  Both callers pass an object literal for \<open>msg\<close>: it is the list of its properties.
  Assigning to \<^verbatim>\<open>doc_state.last_query_id\<close> changes the entry of the map, which
  holds the same object.
\<close>

definition sendRequestForDocument ::
  "TextDocument \<Rightarrow> (string \<times> json) list \<Rightarrow> server \<Rightarrow> server" where
  "sendRequestForDocument textDocument msg s =
     (case map_of (documentState s) (uri textDocument) of
        None \<Rightarrow> s
      | Some doc_state \<Rightarrow>
          (let qid = last_query_id doc_state;
               s1 = s\<lparr> documentState :=
                        AList.update (uri textDocument)
                          (doc_state\<lparr> last_query_id := qid + 1 \<rparr>) (documentState s) \<rparr>;
               msg' = AList.update ''query-id'' (JString (show_nat (qid + 1))) msg;
               s2 = stdin_write (fstar_ide doc_state) (Stringified msg') s1
           in stdin_write (fstar_ide doc_state) (Text [CHR 0x0A]) s2))"

subsection \<open>The document lifecycle\<close>

text \<open>
  \<^verbatim>\<open>
  documents.onDidOpen( e => {
      const textDocument = e.document;
      const filePath = URI.parse(textDocument.uri);
      const docDirectory = path.dirname(filePath.fsPath);
      const filename = path.basename(filePath.fsPath);
      console.log("onDidOpen(dir="+docDirectory+", file="+filename);
      const fstar_ide = cp.spawn("fstar.exe", ["--ide", filename], {cwd:docDirectory});
      documentState.set(textDocument.uri, { fstar_ide: fstar_ide, last_query_id: 0 });
      fstar_ide.stdin.setDefaultEncoding('utf-8');
      fstar_ide.stdout.on('data', (data) => { handleFStarResponseForDocument(e.document, data); });
      const vfs_add = {"query":"vfs-add","args":{"filename":null,"contents":textDocument.getText()}};
      sendRequestForDocument(textDocument, vfs_add);
  });\<close>
  \<^verbatim>\<open>URI.parse(u).fsPath\<close>, \<^verbatim>\<open>path.dirname\<close> and \<^verbatim>\<open>path.basename\<close> are
  library functions: the parameters \<open>fsPath\<close>, \<open>dirname\<close> and \<open>basename\<close>.
  \<^verbatim>\<open>cp.spawn\<close> returns a new child process: the next free handle.  A spawn that
  fails is reported by a later event of the child; it is not modelled.
\<close>

definition spawn :: "string \<Rightarrow> string list \<Rightarrow> string \<Rightarrow> server \<Rightarrow> nat \<times> server" where
  "spawn cmd as dir s =
     (length (children s),
      s\<lparr> children := children s @
             [\<lparr> command = cmd, args = as, cwd = dir, running = True, stdin = [],
                on_data = None \<rparr>] \<rparr>)"

definition stdout_on_data :: "nat \<Rightarrow> TextDocument \<Rightarrow> server \<Rightarrow> server" where
  "stdout_on_data p d s =
     (case index (children s) p of
        None \<Rightarrow> s
      | Some child \<Rightarrow> s\<lparr> children := (children s)[p := child\<lparr> on_data := Some d \<rparr>] \<rparr>)"

definition onDidOpen ::
  "(string \<Rightarrow> string) \<Rightarrow> (string \<Rightarrow> string) \<Rightarrow> (string \<Rightarrow> string) \<Rightarrow>
   TextDocument \<Rightarrow> server \<Rightarrow> server" where
  "onDidOpen fsPath dirname basename textDocument s =
     (let filePath = fsPath (uri textDocument);
          docDirectory = dirname filePath;
          filename = basename filePath;
          s1 = console_log (''onDidOpen(dir='' @ docDirectory @ '', file='' @ filename) s;
          (fstar_ide, s2) = spawn ''fstar.exe'' [''--ide'', filename] docDirectory s1;
          s3 = s2\<lparr> documentState :=
                   AList.update (uri textDocument)
                     \<lparr> fstar_ide = fstar_ide, last_query_id = 0 \<rparr> (documentState s2) \<rparr>;
          s4 = stdout_on_data fstar_ide textDocument s3;
          vfs_add = [(''query'', JString ''vfs-add''),
                     (''args'', JObject [(''filename'', JNull),
                                         (''contents'', JString (getText textDocument))])]
      in sendRequestForDocument textDocument vfs_add s4)"

text \<open>
  \<^verbatim>\<open>
  // Only keep settings for open documents
  documents.onDidClose(e => {
      documentSettings.delete(e.document.uri);
  });\<close>
\<close>

definition onDidClose :: "TextDocument \<Rightarrow> server \<Rightarrow> server" where
  "onDidClose document s =
     s\<lparr> documentSettings := AList.delete (uri document) (documentSettings s) \<rparr>"

text \<open>
  \<^verbatim>\<open>
  documents.onDidChangeContent(change => { validateFStarDocument(change.document); });

  async function validateFStarDocument(textDocument: TextDocument): Promise<void> {
      console.log("ValidateFStarDocument( " + textDocument.uri + ")");
      connection.sendDiagnostics({uri:textDocument.uri, diagnostics:[]});
      sendStatusClear({uri:textDocument.uri});
      const push_context = { query:"full-buffer", args:{kind:"full", code:textDocument.getText(), line:0, column:0} };
      sendRequestForDocument(textDocument, push_context);
  }\<close>
\<close>

definition validateFStarDocument :: "TextDocument \<Rightarrow> server \<Rightarrow> server" where
  "validateFStarDocument textDocument s =
     (let s1 = console_log (''ValidateFStarDocument( '' @ uri textDocument @ '')'') s;
          s2 = send (PublishDiagnostics (uri textDocument) []) s1;
          s3 = sendStatusClear (uri textDocument) s2;
          push_context = [(''query'', JString ''full-buffer''),
                          (''args'', JObject [(''kind'', JString ''full''),
                                              (''code'', JString (getText textDocument)),
                                              (''line'', JNumber 0),
                                              (''column'', JNumber 0)])]
      in sendRequestForDocument textDocument push_context s3)"

definition onDidChangeContent :: "TextDocument \<Rightarrow> server \<Rightarrow> server" where
  "onDidChangeContent document s = validateFStarDocument document s"

subsection \<open>Events and reachable states\<close>

text \<open>
  What the server reacts to: the three document events of the editor, and a chunk of
  output of a child process, which goes to the listener registered on it.
\<close>

datatype event =
    DidOpen TextDocument
  | DidChangeContent TextDocument
  | DidClose TextDocument
  | StdoutData nat string

definition stdout_data ::
  "(string \<Rightarrow> json option) \<Rightarrow> nat \<Rightarrow> string \<Rightarrow> server \<Rightarrow> outcome" where
  "stdout_data parse p data s =
     (case index (children s) p of
        None \<Rightarrow> (Inr (), s)
      | Some child \<Rightarrow>
          (case on_data child of
             None \<Rightarrow> (Inr (), s)
           | Some d \<Rightarrow> handleFStarResponseForDocument parse d data s))"

fun react ::
  "(string \<Rightarrow> json option) \<Rightarrow> (string \<Rightarrow> string) \<Rightarrow> (string \<Rightarrow> string) \<Rightarrow> (string \<Rightarrow> string) \<Rightarrow>
   event \<Rightarrow> server \<Rightarrow> outcome" where
  "react parse fsPath dirname basename (DidOpen d) s =
     (Inr (), onDidOpen fsPath dirname basename d s)"
| "react parse fsPath dirname basename (DidChangeContent d) s = (Inr (), onDidChangeContent d s)"
| "react parse fsPath dirname basename (DidClose d) s = (Inr (), onDidClose d s)"
| "react parse fsPath dirname basename (StdoutData p data) s = stdout_data parse p data s"

text \<open>
  The states the server can be in: the initial one, and the state any event leaves
  behind, whether its handler returned or threw.
\<close>

inductive reachable ::
  "(string \<Rightarrow> json option) \<Rightarrow> (string \<Rightarrow> string) \<Rightarrow> (string \<Rightarrow> string) \<Rightarrow> (string \<Rightarrow> string) \<Rightarrow>
   server \<Rightarrow> bool"
  for parse fsPath dirname basename where
  reachable_init: "reachable parse fsPath dirname basename init_server"
| reachable_step:
    "reachable parse fsPath dirname basename s \<Longrightarrow>
     reachable parse fsPath dirname basename (snd (react parse fsPath dirname basename ev s))"

subsection \<open>An executable reading of JSON.parse\<close>

text \<open>
  The theorems about the dispatcher hold for every \<open>parse\<close>.  To run the dispatcher on
  a concrete chunk, \<open>JSON_parse\<close> reads a fragment of JSON: the texts whose numbers
  are integers written without fraction or exponent and whose strings have no
  \<^verbatim>\<open>\u\<close> escape.  On a text of the fragment it returns the value that
  \<^verbatim>\<open>JSON.parse\<close> returns (of a repeated property name the last value, at the place
  of the first); on every other text it returns \<open>None\<close>, which is what
  \<^verbatim>\<open>JSON.parse\<close> does on a text that is not JSON.  The runs below use texts of
  the fragment and the text \<^verbatim>\<open>oops\<close>, which is not JSON.  \<open>JSON_parse\<close> is a
  scanner followed by a token-driven stack machine; both are structurally recursive
  over their input.
\<close>

datatype token =
    TOpenBrace | TCloseBrace | TOpenBracket | TCloseBracket | TColon | TComma
  | TString string
  | TAtom json

datatype scan_mode =
    Between
  | InString string      \<comment> \<open>the characters read so far, last first\<close>
  | InEscape string
  | InNumber bool string \<comment> \<open>negative?, the digits read so far\<close>
  | InWord string

definition is_digit :: "char \<Rightarrow> bool" where
  "is_digit c = (48 \<le> (of_char c :: nat) \<and> (of_char c :: nat) \<le> 57)"

definition is_lower :: "char \<Rightarrow> bool" where
  "is_lower c = (97 \<le> (of_char c :: nat) \<and> (of_char c :: nat) \<le> 122)"

definition is_space :: "char \<Rightarrow> bool" where
  "is_space c = (c = CHR 0x20 \<or> c = CHR 0x09 \<or> c = CHR 0x0A \<or> c = CHR 0x0D)"

definition digits_value :: "string \<Rightarrow> nat" where
  "digits_value ds = foldl (\<lambda>n c. 10 * n + (of_char c - 48)) 0 ds"

definition number_token :: "bool \<Rightarrow> string \<Rightarrow> token option" where
  "number_token neg ds =
     (if ds = [] \<or> (hd ds = CHR ''0'' \<and> ds \<noteq> ''0'') then None
      else Some (TAtom (JNumber (if neg then - int (digits_value ds) else int (digits_value ds)))))"

definition word_token :: "string \<Rightarrow> token option" where
  "word_token w =
     (if w = ''true'' then Some (TAtom (JBool True))
      else if w = ''false'' then Some (TAtom (JBool False))
      else if w = ''null'' then Some (TAtom JNull)
      else None)"

definition unescape :: "char \<Rightarrow> char option" where
  "unescape c =
     (if c = CHR 0x22 \<or> c = CHR 0x5C \<or> c = CHR ''/'' then Some c
      else if c = CHR ''b'' then Some (CHR 0x08)
      else if c = CHR ''f'' then Some (CHR 0x0C)
      else if c = CHR ''n'' then Some (CHR 0x0A)
      else if c = CHR ''r'' then Some (CHR 0x0D)
      else if c = CHR ''t'' then Some (CHR 0x09)
      else None)"

definition begin_token :: "char \<Rightarrow> (token list \<times> scan_mode) option" where
  "begin_token c =
     (if is_space c then Some ([], Between)
      else if c = CHR ''{'' then Some ([TOpenBrace], Between)
      else if c = CHR ''}'' then Some ([TCloseBrace], Between)
      else if c = CHR ''['' then Some ([TOpenBracket], Between)
      else if c = CHR '']'' then Some ([TCloseBracket], Between)
      else if c = CHR '':'' then Some ([TColon], Between)
      else if c = CHR '','' then Some ([TComma], Between)
      else if c = CHR 0x22 then Some ([], InString [])
      else if c = CHR ''-'' then Some ([], InNumber True [])
      else if is_digit c then Some ([], InNumber False [c])
      else if is_lower c then Some ([], InWord [c])
      else None)"

definition then_begin :: "token option \<Rightarrow> char \<Rightarrow> (token list \<times> scan_mode) option" where
  "then_begin tok c =
     (case tok of
        None \<Rightarrow> None
      | Some t \<Rightarrow> map_option (\<lambda>(ts, m). (t # ts, m)) (begin_token c))"

fun scan_char :: "scan_mode \<Rightarrow> char \<Rightarrow> (token list \<times> scan_mode) option" where
  "scan_char Between c = begin_token c"
| "scan_char (InString acc) c =
     (if c = CHR 0x22 then Some ([TString (rev acc)], Between)
      else if c = CHR 0x5C then Some ([], InEscape acc)
      else if (of_char c :: nat) < 32 then None
      else Some ([], InString (c # acc)))"
| "scan_char (InEscape acc) c = map_option (\<lambda>d. ([], InString (d # acc))) (unescape c)"
| "scan_char (InNumber neg ds) c =
     (if is_digit c then Some ([], InNumber neg (ds @ [c]))
      else if c = CHR ''.'' \<or> c = CHR ''e'' \<or> c = CHR ''E'' then None
      else then_begin (number_token neg ds) c)"
| "scan_char (InWord w) c =
     (if is_lower c then Some ([], InWord (w @ [c]))
      else then_begin (word_token w) c)"

fun scan_end :: "scan_mode \<Rightarrow> token list option" where
  "scan_end Between = Some []"
| "scan_end (InNumber neg ds) = map_option (\<lambda>t. [t]) (number_token neg ds)"
| "scan_end (InWord w) = map_option (\<lambda>t. [t]) (word_token w)"
| "scan_end (InString acc) = None"
| "scan_end (InEscape acc) = None"

fun scan :: "scan_mode \<Rightarrow> string \<Rightarrow> token list option" where
  "scan m [] = scan_end m"
| "scan m (c # cs) =
     (case scan_char m c of
        None \<Rightarrow> None
      | Some (ts, m') \<Rightarrow> map_option ((@) ts) (scan m' cs))"

datatype frame =
    ArrayFrame "json list"
      \<comment> \<open>an open array and its elements so far\<close>
  | ObjectFrame "(string \<times> json) list" "string option"
      \<comment> \<open>an open object, its members so far, and the name that awaits its value\<close>

datatype expecting =
    Value | ValueOrCloseBracket | NameOrCloseBrace | Name | ColonNext | CommaOrClose
  | Finished json

definition put_value :: "json \<Rightarrow> frame list \<Rightarrow> (expecting \<times> frame list) option" where
  "put_value v st =
     (case st of
        [] \<Rightarrow> Some (Finished v, [])
      | ArrayFrame es # st' \<Rightarrow> Some (CommaOrClose, ArrayFrame (es @ [v]) # st')
      | ObjectFrame ms None # st' \<Rightarrow> None
      | ObjectFrame ms (Some k) # st' \<Rightarrow>
          Some (CommaOrClose, ObjectFrame (AList.update k v ms) None # st'))"

definition close_array :: "frame list \<Rightarrow> (expecting \<times> frame list) option" where
  "close_array st = (case st of ArrayFrame es # st' \<Rightarrow> put_value (JArray es) st' | _ \<Rightarrow> None)"

definition close_object :: "frame list \<Rightarrow> (expecting \<times> frame list) option" where
  "close_object st =
     (case st of ObjectFrame ms None # st' \<Rightarrow> put_value (JObject ms) st' | _ \<Rightarrow> None)"

definition take_name :: "string \<Rightarrow> frame list \<Rightarrow> (expecting \<times> frame list) option" where
  "take_name k st =
     (case st of
        ObjectFrame ms None # st' \<Rightarrow> Some (ColonNext, ObjectFrame ms (Some k) # st')
      | _ \<Rightarrow> None)"

definition take_value :: "token \<Rightarrow> frame list \<Rightarrow> (expecting \<times> frame list) option" where
  "take_value tok st =
     (case tok of
        TAtom v \<Rightarrow> put_value v st
      | TString x \<Rightarrow> put_value (JString x) st
      | TOpenBracket \<Rightarrow> Some (ValueOrCloseBracket, ArrayFrame [] # st)
      | TOpenBrace \<Rightarrow> Some (NameOrCloseBrace, ObjectFrame [] None # st)
      | _ \<Rightarrow> None)"

fun parse_token :: "expecting \<Rightarrow> frame list \<Rightarrow> token \<Rightarrow> (expecting \<times> frame list) option" where
  "parse_token Value st tok = take_value tok st"
| "parse_token ValueOrCloseBracket st tok =
     (if tok = TCloseBracket then close_array st else take_value tok st)"
| "parse_token NameOrCloseBrace st tok =
     (case tok of TString k \<Rightarrow> take_name k st | TCloseBrace \<Rightarrow> close_object st | _ \<Rightarrow> None)"
| "parse_token Name st tok = (case tok of TString k \<Rightarrow> take_name k st | _ \<Rightarrow> None)"
| "parse_token ColonNext st tok = (if tok = TColon then Some (Value, st) else None)"
| "parse_token CommaOrClose st tok =
     (case tok of
        TComma \<Rightarrow>
          (case st of
             ArrayFrame es # st' \<Rightarrow> Some (Value, st)
           | ObjectFrame ms k # st' \<Rightarrow> Some (Name, st)
           | [] \<Rightarrow> None)
      | TCloseBracket \<Rightarrow> close_array st
      | TCloseBrace \<Rightarrow> close_object st
      | _ \<Rightarrow> None)"
| "parse_token (Finished v) st tok = None"

fun parse_tokens :: "expecting \<Rightarrow> frame list \<Rightarrow> token list \<Rightarrow> (expecting \<times> frame list) option" where
  "parse_tokens e st [] = Some (e, st)"
| "parse_tokens e st (tok # toks) =
     (case parse_token e st tok of
        None \<Rightarrow> None
      | Some (e', st') \<Rightarrow> parse_tokens e' st' toks)"

definition JSON_parse :: "string \<Rightarrow> json option" where
  "JSON_parse txt =
     (case scan Between txt of
        None \<Rightarrow> None
      | Some toks \<Rightarrow>
          (case parse_tokens Value [] toks of
             Some (Finished v, st) \<Rightarrow> Some v
           | _ \<Rightarrow> None))"

subsection \<open>Observations used in the statements\<close>

text \<open>Successive calls of \<open>sendRequestForDocument\<close> for one document.\<close>

fun send_all :: "TextDocument \<Rightarrow> (string \<times> json) list list \<Rightarrow> server \<Rightarrow> server" where
  "send_all d [] s = s"
| "send_all d (msg # msgs) s = send_all d msgs (sendRequestForDocument d msg s)"

text \<open>
  The number that a decimal text denotes, and the \<^verbatim>\<open>query-id\<close> that something
  written to a child carries, read as a number.
\<close>

definition read_nat :: "string \<Rightarrow> nat option" where
  "read_nat ds = (if ds \<noteq> [] \<and> list_all is_digit ds then Some (digits_value ds) else None)"

definition query_id :: "written \<Rightarrow> nat option" where
  "query_id w =
     (case w of
        Stringified msg \<Rightarrow>
          (case map_of msg ''query-id'' of
             Some (JString ds) \<Rightarrow> read_nat ds
           | _ \<Rightarrow> None)
      | Text txt \<Rightarrow> None)"

text \<open>What one query leaves on the child's standard input, given the counter before it.\<close>

definition query_written :: "nat \<Rightarrow> (string \<times> json) list \<Rightarrow> written list" where
  "query_written qid msg =
     [Stringified (AList.update ''query-id'' (JString (show_nat (qid + 1))) msg),
      Text [CHR 0x0A]]"

text \<open>A chunk of output made of the given lines, each ended by a newline.\<close>

definition lines_chunk :: "string list \<Rightarrow> string" where
  "lines_chunk ls = concat (map (\<lambda>l. l @ [CHR 0x0A]) ls)"

section \<open>Properties\<close>

subsection \<open>Loops, lines and decimal texts\<close>


text \<open>What no call of the loop body changes, the loop does not change.\<close>

lemma forEach_frame:
  assumes "\<And>x s. g (snd (f x s)) = g s"
  shows "g (snd (forEach f xs s)) = g s"
proof (induction xs arbitrary: s)
  case Nil
  show ?case by simp
next
  case (Cons x xs)
  show ?case
  proof (cases "f x s")
    case (Pair r s')
    have "g s' = g s" using assms [of x s] Pair by simp
    with Cons Pair show ?thesis by (cases r) simp_all
  qed
qed

lemma split_newline_line:
  "CHR 0x0A \<notin> set l \<Longrightarrow> split_newline (l @ CHR 0x0A # rest) = l # split_newline rest"
  by (induction l) auto

lemma split_newline_lines:
  "\<forall>l\<in>set ls. CHR 0x0A \<notin> set l \<Longrightarrow>
   split_newline (concat (map (\<lambda>l. l @ [CHR 0x0A]) ls) @ rest) = ls @ split_newline rest"
  by (induction ls) (auto simp: split_newline_line)

lemma of_char_digit: "k < 10 \<Longrightarrow> (of_char (char_of (48 + k)) :: nat) = 48 + k"
  by simp

lemma digits_value_snoc: "digits_value (ds @ [c]) = 10 * digits_value ds + (of_char c - 48)"
  by (simp add: digits_value_def)

lemma digits_value_show_nat: "digits_value (show_nat n) = n"
proof (induction n rule: show_nat.induct)
  case (1 n)
  show ?case
  proof (cases "n < 10")
    case True
    then show ?thesis by (simp add: digits_value_def show_nat.simps)
  next
    case False
    then have "digits_value (show_nat n) = 10 * digits_value (show_nat (n div 10)) + n mod 10"
      by (subst show_nat.simps) (simp add: digits_value_snoc)
    with 1 False show ?thesis by simp
  qed
qed

lemma inj_show_nat: "inj show_nat"
  by (rule inj_on_inverseI [where g = digits_value]) (rule digits_value_show_nat)

lemma show_nat_digits: "show_nat n \<noteq> [] \<and> list_all is_digit (show_nat n)"
proof (induction n rule: show_nat.induct)
  case (1 n)
  show ?case
  proof (cases "n < 10")
    case True
    then show ?thesis by (simp add: is_digit_def show_nat.simps)
  next
    case False
    have "n mod 10 < 10" by simp
    then have "is_digit (char_of (48 + n mod 10))"
      unfolding is_digit_def by (simp only: of_char_digit) simp
    with 1 False show ?thesis by (subst (1 2) show_nat.simps) simp
  qed
qed

lemma read_nat_show_nat: "read_nat (show_nat n) = Some n"
  by (simp add: read_nat_def show_nat_digits digits_value_show_nat)

lemma show_nat_1: "show_nat (Suc 0) = ''1''"
  by code_simp

lemma show_nat_2: "show_nat (Suc (Suc 0)) = ''2''"
  by code_simp

subsection \<open>The coordinate remap\<close>

text \<open>
  C2.  For every 1-based (line, column) pair the coordinate remap \<open>mkPosition\<close> returns
  (line - 1, column): the line is decremented by one, the column is unchanged; and for
  a fixed column the map from lines to positions is injective.  It holds for all
  integers, the valid 1-based pairs among them.
\<close>

theorem mkPosition_remap:
  "mkPosition [l, c] = \<lparr> line = Num (l - 1), character = Num c \<rparr>
   \<and> inj (\<lambda>l. mkPosition [l, c])"
  by (simp add: mkPosition_def index_def inj_def)

text \<open>Witness for C2: the pairs \<open>(3, 0)\<close> and \<open>(5, 2)\<close>.\<close>

theorem mkPosition_remap_witness:
  "mkPosition [3, 0] = \<lparr> line = Num 2, character = Num 0 \<rparr>
   \<and> mkPosition [5, 2] = \<lparr> line = Num 4, character = Num 2 \<rparr>"
  using mkPosition_remap [of 3 0] mkPosition_remap [of 5 2] by simp

subsection \<open>The failure handler\<close>

lemma index_0: "index xs 0 = (case xs of [] \<Rightarrow> None | x # _ \<Rightarrow> Some x)"
  by (cases xs) (simp_all add: index_def)

lemma handleIdeFailure_entry_nonempty:
  "ranges err = rng # rest \<Longrightarrow>
   handleIdeFailure_entry d err s =
     (Inr (), s\<lparr> connection := connection s @
                 [PublishDiagnostics (uri d)
                    [\<lparr> severity = Error,
                       range' = \<lparr> start = mkPosition (beg rng), end' = mkPosition (end_pos rng) \<rparr>,
                       Diagnostic.message = IdeError.message err \<rparr>]] \<rparr>)"
  by (simp add: handleIdeFailure_entry_def index_0 send_def)

lemma handleIdeFailure_all_nonempty:
  assumes "\<forall>err\<in>set response. ranges err \<noteq> []"
  shows "handleIdeFailure d response s =
           (Inr (), s\<lparr> connection := connection s @
              map (\<lambda>err. PublishDiagnostics (uri d)
                     [\<lparr> severity = Error,
                        range' = \<lparr> start = mkPosition (beg (hd (ranges err))),
                                   end' = mkPosition (end_pos (hd (ranges err))) \<rparr>,
                        Diagnostic.message = IdeError.message err \<rparr>]) response \<rparr>)"
  using assms
proof (induction response arbitrary: s)
  case Nil
  show ?case by (simp add: handleIdeFailure_def)
next
  case (Cons err response)
  from Cons.prems obtain rng rest where r: "ranges err = rng # rest"
    by (cases "ranges err") auto
  from Cons.prems have "\<forall>e\<in>set response. ranges e \<noteq> []" by simp
  from Cons.IH [OF this] show ?case
    by (simp add: handleIdeFailure_def handleIdeFailure_entry_nonempty [OF r] r)
qed

text \<open>
  C1, as amended.  For every failure response whose \<open>K\<close> error entries each have a
  non-empty \<open>ranges\<close> array, the failure handler returns normally and publishes exactly
  \<open>K\<close> diagnostics, one per entry and in the order of the entries, each for the
  triggering document's URI and of error severity, each with the entry's message as its
  text and with the range made of the begin and the end of the entry's first range
  only, both remapped by \<open>mkPosition\<close> (line minus one, column unchanged).
\<close>

theorem handleIdeFailure_publishes:
  assumes "\<forall>err\<in>set response. ranges err \<noteq> []"
  shows "fst (handleIdeFailure d response s) = Inr ()
       \<and> connection (snd (handleIdeFailure d response s)) =
           connection s @
           map (\<lambda>err. PublishDiagnostics (uri d)
                  [\<lparr> severity = Error,
                     range' = \<lparr> start = mkPosition (beg (hd (ranges err))),
                                end' = mkPosition (end_pos (hd (ranges err))) \<rparr>,
                     Diagnostic.message = IdeError.message err \<rparr>]) response
       \<and> length (connection (snd (handleIdeFailure d response s))) =
           length (connection s) + length response"
  by (simp add: handleIdeFailure_all_nonempty [OF assms])

text \<open>Witness for C1: an entry with two ranges, of which only the first is used.\<close>

theorem handleIdeFailure_publishes_witness:
  "ranges \<lparr> IdeError.message = ''syntax error'',
            ranges = [\<lparr> beg = [1, 4], end_pos = [1, 5] \<rparr>, \<lparr> beg = [7, 0], end_pos = [7, 9] \<rparr>] \<rparr> \<noteq> []
   \<and> connection (snd (handleIdeFailure \<lparr> uri = ''file:///a.fst'', getText = ''let x = 1'' \<rparr>
        [\<lparr> IdeError.message = ''syntax error'',
           ranges = [\<lparr> beg = [1, 4], end_pos = [1, 5] \<rparr>, \<lparr> beg = [7, 0], end_pos = [7, 9] \<rparr>] \<rparr>]
        init_server)) =
     [PublishDiagnostics ''file:///a.fst''
        [\<lparr> severity = Error,
           range' = \<lparr> start = \<lparr> line = Num 0, character = Num 4 \<rparr>,
                      end' = \<lparr> line = Num 0, character = Num 5 \<rparr> \<rparr>,
           Diagnostic.message = ''syntax error'' \<rparr>]]"
  using handleIdeFailure_publishes
    [of "[\<lparr> IdeError.message = ''syntax error'',
           ranges = [\<lparr> beg = [1, 4], end_pos = [1, 5] \<rparr>, \<lparr> beg = [7, 0], end_pos = [7, 9] \<rparr>] \<rparr>]"
        "\<lparr> uri = ''file:///a.fst'', getText = ''let x = 1'' \<rparr>" init_server]
  by (simp add: init_server_def mkPosition_def index_def)

text \<open>
  Counterexample to C1 as stated: an entry without a range.  Of the three entries of
  this response the second has an empty \<open>ranges\<close> array: the handler publishes the
  first diagnostic, throws at the second entry, and publishes nothing for the third:
  one diagnostic for \<open>K = 3\<close>.
\<close>

theorem handleIdeFailure_empty_ranges_throws:
  "fst (handleIdeFailure \<lparr> uri = ''file:///a.fst'', getText = ''let x = 1'' \<rparr>
         [\<lparr> IdeError.message = ''first'', ranges = [\<lparr> beg = [1, 4], end_pos = [1, 5] \<rparr>] \<rparr>,
          \<lparr> IdeError.message = ''second'', ranges = [] \<rparr>,
          \<lparr> IdeError.message = ''third'', ranges = [\<lparr> beg = [2, 0], end_pos = [2, 3] \<rparr>] \<rparr>]
         init_server) = Inl TypeError
   \<and> length (connection (snd (handleIdeFailure \<lparr> uri = ''file:///a.fst'', getText = ''let x = 1'' \<rparr>
         [\<lparr> IdeError.message = ''first'', ranges = [\<lparr> beg = [1, 4], end_pos = [1, 5] \<rparr>] \<rparr>,
          \<lparr> IdeError.message = ''second'', ranges = [] \<rparr>,
          \<lparr> IdeError.message = ''third'', ranges = [\<lparr> beg = [2, 0], end_pos = [2, 3] \<rparr>] \<rparr>]
         init_server))) = 1"
  by (simp add: handleIdeFailure_def handleIdeFailure_entry_def index_def send_def init_server_def)

text \<open>
  C10.  The failure handler reads \<open>ranges[0]\<close> of every entry and the components \<open>0\<close>
  and \<open>1\<close> of its begin and end without a guard.  For every failure array in which
  each entry has a non-empty \<open>ranges\<close> array whose first range has a begin and an end
  of at least two components, every one of these reads is in bounds (\<open>index\<close> returns
  \<open>Some\<close>), the handler returns normally, and it publishes exactly one diagnostic per
  entry, whose four coordinates are numbers.
\<close>

theorem handleIdeFailure_reads_in_bounds:
  assumes "\<forall>err\<in>set response. \<exists>rng rest. ranges err = rng # rest
              \<and> 2 \<le> length (beg rng) \<and> 2 \<le> length (end_pos rng)"
  shows "(\<forall>err\<in>set response. \<exists>rng l1 c1 l2 c2.
            index (ranges err) 0 = Some rng
          \<and> index (beg rng) 0 = Some l1 \<and> index (beg rng) 1 = Some c1
          \<and> index (end_pos rng) 0 = Some l2 \<and> index (end_pos rng) 1 = Some c2)
       \<and> fst (handleIdeFailure d response s) = Inr ()
       \<and> connection (snd (handleIdeFailure d response s)) =
           connection s @
           map (\<lambda>err. PublishDiagnostics (uri d)
                  [\<lparr> severity = Error,
                     range' = \<lparr> start = \<lparr> line = Num (beg (hd (ranges err)) ! 0 - 1),
                                           character = Num (beg (hd (ranges err)) ! 1) \<rparr>,
                                end' = \<lparr> line = Num (end_pos (hd (ranges err)) ! 0 - 1),
                                          character = Num (end_pos (hd (ranges err)) ! 1) \<rparr> \<rparr>,
                     Diagnostic.message = IdeError.message err \<rparr>]) response"
proof -
  have ne: "\<forall>err\<in>set response. ranges err \<noteq> []"
    using assms by auto
  have acc: "\<forall>err\<in>set response. \<exists>rng l1 c1 l2 c2.
            index (ranges err) 0 = Some rng
          \<and> index (beg rng) 0 = Some l1 \<and> index (beg rng) 1 = Some c1
          \<and> index (end_pos rng) 0 = Some l2 \<and> index (end_pos rng) 1 = Some c2"
    using assms by (fastforce simp: index_def)
  have pos: "\<And>err. err \<in> set response \<Longrightarrow>
      mkPosition (beg (hd (ranges err))) =
        \<lparr> line = Num (beg (hd (ranges err)) ! 0 - 1), character = Num (beg (hd (ranges err)) ! 1) \<rparr>
    \<and> mkPosition (end_pos (hd (ranges err))) =
        \<lparr> line = Num (end_pos (hd (ranges err)) ! 0 - 1),
          character = Num (end_pos (hd (ranges err)) ! 1) \<rparr>"
    using assms by (fastforce simp: mkPosition_def index_def)
  have "map (\<lambda>err. PublishDiagnostics (uri d)
                  [\<lparr> severity = Error,
                     range' = \<lparr> start = mkPosition (beg (hd (ranges err))),
                                end' = mkPosition (end_pos (hd (ranges err))) \<rparr>,
                     Diagnostic.message = IdeError.message err \<rparr>]) response =
        map (\<lambda>err. PublishDiagnostics (uri d)
                  [\<lparr> severity = Error,
                     range' = \<lparr> start = \<lparr> line = Num (beg (hd (ranges err)) ! 0 - 1),
                                           character = Num (beg (hd (ranges err)) ! 1) \<rparr>,
                                end' = \<lparr> line = Num (end_pos (hd (ranges err)) ! 0 - 1),
                                          character = Num (end_pos (hd (ranges err)) ! 1) \<rparr> \<rparr>,
                     Diagnostic.message = IdeError.message err \<rparr>]) response"
    by (rule map_cong [OF refl]) (simp add: pos)
  with acc show ?thesis
    by (simp add: handleIdeFailure_all_nonempty [OF ne])
qed

text \<open>Witness for C10: two entries, the second with a begin of three components.\<close>

theorem handleIdeFailure_reads_in_bounds_witness:
  "index (ranges \<lparr> IdeError.message = ''m1'', ranges = [\<lparr> beg = [1, 4], end_pos = [1, 5] \<rparr>] \<rparr>) 0 =
     Some \<lparr> beg = [1, 4], end_pos = [1, 5] \<rparr>
   \<and> index [1, 4 :: int] 1 = Some 4
   \<and> handleIdeFailure \<lparr> uri = ''file:///a.fst'', getText = ''let x = 1'' \<rparr>
        [\<lparr> IdeError.message = ''m1'', ranges = [\<lparr> beg = [1, 4], end_pos = [1, 5] \<rparr>] \<rparr>,
         \<lparr> IdeError.message = ''m2'', ranges = [\<lparr> beg = [2, 0, 9], end_pos = [3, 1] \<rparr>] \<rparr>]
        init_server =
      (Inr (), init_server\<lparr> connection :=
         [PublishDiagnostics ''file:///a.fst''
            [\<lparr> severity = Error,
               range' = \<lparr> start = \<lparr> line = Num 0, character = Num 4 \<rparr>,
                          end' = \<lparr> line = Num 0, character = Num 5 \<rparr> \<rparr>,
               Diagnostic.message = ''m1'' \<rparr>],
          PublishDiagnostics ''file:///a.fst''
            [\<lparr> severity = Error,
               range' = \<lparr> start = \<lparr> line = Num 1, character = Num 0 \<rparr>,
                          end' = \<lparr> line = Num 2, character = Num 1 \<rparr> \<rparr>,
               Diagnostic.message = ''m2'' \<rparr>]] \<rparr>)"
  using handleIdeFailure_reads_in_bounds
    [of "[\<lparr> IdeError.message = ''m1'', ranges = [\<lparr> beg = [1, 4], end_pos = [1, 5] \<rparr>] \<rparr>,
          \<lparr> IdeError.message = ''m2'', ranges = [\<lparr> beg = [2, 0, 9], end_pos = [3, 1] \<rparr>] \<rparr>]"
        "\<lparr> uri = ''file:///a.fst'', getText = ''let x = 1'' \<rparr>" init_server]
  by (simp add: init_server_def index_def handleIdeFailure_def handleIdeFailure_entry_def
                send_def mkPosition_def)

subsection \<open>The progress handler\<close>

text \<open>On a string the comparison \<^verbatim>\<open>==\<close> with a string literal is equality.\<close>

lemma loose_eq_string: "loose_eq (Some (JString x)) lit = Inr (x = lit)"
  by (simp add: loose_eq_def)

text \<open>It is false on a number, a boolean, \<^verbatim>\<open>null\<close> and \<^verbatim>\<open>undefined\<close>.\<close>

lemma loose_eq_other:
  "loose_eq None lit = Inr False" "loose_eq (Some JNull) lit = Inr False"
  "loose_eq (Some (JBool b)) lit = Inr False" "loose_eq (Some (JNumber n)) lit = Inr False"
  by (simp_all add: loose_eq_def)






subsection \<open>The response dispatcher\<close>

lemma handleIdeProgress_routed: "routed (snd (handleIdeProgress d c s)) = routed s"
  by (simp add: handleIdeProgress_def sendStatusOk_def send_def console_log_def
           split: sum.splits)


lemma handleIdeFailure_entry_routed: "routed (snd (handleIdeFailure_entry d err s)) = routed s"
  by (simp add: handleIdeFailure_entry_def send_def Let_def split: option.splits)

lemma handleIdeFailure_routed: "routed (snd (handleIdeFailure d response s)) = routed s"
  unfolding handleIdeFailure_def
  by (rule forEach_frame) (rule handleIdeFailure_entry_routed)

lemma failure_branch_routed:
  "length (routed (snd (failure_branch d r s))) = Suc (length (routed s))"
  by (simp add: failure_branch_def handleIdeFailure_routed record_route_def split: option.splits)

lemma unhandled_branch_routed:
  "length (routed (snd (unhandled_branch r s))) = Suc (length (routed s))"
  by (simp add: unhandled_branch_def record_route_def console_log_def split: option.splits)

text \<open>A message whose handling returns has been routed exactly once.\<close>

lemma route_message_routed:
  "fst (route_message d r s) = Inr () \<Longrightarrow>
   length (routed (snd (route_message d r s))) = Suc (length (routed s))"
  by (simp add: route_message_def if_else_def handleIdeProtocolInfo_def handleIdeSuccess_def
                handleIdeProgress_routed failure_branch_routed unhandled_branch_routed
                record_route_def console_log_def
           split: sum.splits if_splits)

lemma route_message_null: "route_message d JNull s = (Inl TypeError, s)"
  by (simp add: route_message_def)

text \<open>Where a progress message and a failure response with a typed payload are routed.\<close>

lemma route_message_progress:
  assumes "get_prop r ''kind'' = Some (JString ''message'')"
    and "get_prop r ''level'' = Some (JString ''progress'')"
  shows "route_message d r s =
           handleIdeProgress d (get_prop r ''contents'') (record_route ToProgress s)"
proof -
  from assms(1) have "r \<noteq> JNull" by (auto simp: get_prop_def)
  with assms show ?thesis
    by (simp add: route_message_def if_else_def loose_eq_def and_also_def)
qed

lemma route_message_failure:
  assumes "get_prop r ''kind'' = Some (JString ''response'')"
    and "get_prop r ''status'' = Some (JString ''failure'')"
    and "get_prop r ''response'' = Some (JArray es)"
    and "as_list as_IdeError es = Some response"
  shows "route_message d r s = handleIdeFailure d response (record_route ToFailure s)"
proof -
  from assms(1) have "r \<noteq> JNull" by (auto simp: get_prop_def)
  with assms show ?thesis
    by (simp add: route_message_def if_else_def loose_eq_def and_also_def failure_branch_def truthy_def
                  as_IdeError_array_def)
qed

lemma handleOne_empty: "handleOneResponseForDocument parse d [] s = (Inr (), s)"
  by (simp add: handleOneResponseForDocument_def)


lemma handleOne_returns_routed:
  assumes "l \<noteq> []" "fst (handleOneResponseForDocument parse d l s) = Inr ()"
  shows "length (routed (snd (handleOneResponseForDocument parse d l s))) = Suc (length (routed s))"
proof (cases "parse l")
  case None
  with assms show ?thesis by (simp add: handleOneResponseForDocument_def)
next
  case (Some r)
  with assms show ?thesis
    by (simp add: handleOneResponseForDocument_def route_message_routed)
qed

lemma forEach_lines_routed:
  assumes "\<forall>l\<in>set ls. l \<noteq> [] \<longrightarrow> (\<forall>s. fst (handleOneResponseForDocument parse d l s) = Inr ())"
  shows "fst (forEach (handleOneResponseForDocument parse d) ls s) = Inr ()
       \<and> length (routed (snd (forEach (handleOneResponseForDocument parse d) ls s))) =
           length (routed s) + length (filter (\<lambda>l. l \<noteq> []) ls)"
  using assms
proof (induction ls arbitrary: s)
  case Nil
  show ?case by simp
next
  case (Cons l ls)
  obtain r s' where step: "handleOneResponseForDocument parse d l s = (r, s')"
    by (cases "handleOneResponseForDocument parse d l s")
  from Cons.prems
  have rest: "\<forall>l\<in>set ls. l \<noteq> [] \<longrightarrow> (\<forall>s. fst (handleOneResponseForDocument parse d l s) = Inr ())"
    by simp
  show ?case
  proof (cases "l = []")
    case True
    with step have "r = Inr ()" "s' = s" by (simp_all add: handleOne_empty)
    with Cons.IH [OF rest, of s] step True show ?thesis by simp
  next
    case False
    with Cons.prems step have ok: "r = Inr ()" by (metis fst_conv list.set_intros(1))
    from handleOne_returns_routed [OF False, of parse d s] step ok
    have "length (routed s') = Suc (length (routed s))" by simp
    with Cons.IH [OF rest, of s'] step ok False show ?thesis by simp
  qed
qed

lemma forEach_skip_empty:
  "forEach (handleOneResponseForDocument parse d) ls s =
   forEach (handleOneResponseForDocument parse d) (filter (\<lambda>l. l \<noteq> []) ls) s"
  by (induction ls arbitrary: s) (simp_all add: handleOne_empty split: prod.splits sum.splits)


lemma dispatcher_whole_lines:
  assumes "\<forall>l\<in>set ls. CHR 0x0A \<notin> set l"
  shows "handleFStarResponseForDocument parse d (lines_chunk ls) s =
           forEach (handleOneResponseForDocument parse d) (filter (\<lambda>l. l \<noteq> []) ls) s"
proof -
  have "split_newline (lines_chunk ls) = ls @ [[]]"
    using split_newline_lines [OF assms, of "[]"] by (simp add: lines_chunk_def)
  then have "handleFStarResponseForDocument parse d (lines_chunk ls) s =
          forEach (handleOneResponseForDocument parse d) (ls @ [[]]) s"
    by (simp add: handleFStarResponseForDocument_def)
  also have "\<dots> =
      forEach (handleOneResponseForDocument parse d) (filter (\<lambda>l. l \<noteq> []) (ls @ [[]])) s"
    by (rule forEach_skip_empty)
  finally show ?thesis by simp
qed

text \<open>Three lines of output, as \<open>JSON_parse\<close> reads them, and the routing of the first.\<close>

lemma parse_protocol_info:
  "JSON_parse ''{\"kind\":\"protocol-info\"}'' =
     Some (JObject [(''kind'', JString ''protocol-info'')])"
  by code_simp


lemma parse_failure_without_range:
  "JSON_parse ''{\"kind\":\"response\",\"status\":\"failure\",\"response\":[{\"message\":\"m\",\"ranges\":[]}]}'' =
   Some (JObject [(''kind'', JString ''response''), (''status'', JString ''failure''),
                  (''response'', JArray [JObject [(''message'', JString ''m''),
                                                  (''ranges'', JArray [])]])])"
  by code_simp

lemma route_protocol_info:
  "route_message d (JObject [(''kind'', JString ''protocol-info'')]) s =
     (Inr (), s\<lparr> console := console s @ [''FStar ide returned protocol info''],
                 routed := routed s @ [ToProtocolInfo] \<rparr>)"
  by (simp add: route_message_def if_else_def get_prop_def loose_eq_def handleIdeProtocolInfo_def
                record_route_def console_log_def)

text \<open>
  C3, as amended.  For every raw output chunk made of newline-terminated lines, each of
  them either empty or a JSON line that the dispatcher handles without an exception:
  the dispatcher returns normally and performs exactly one routing for each non-empty
  line, so \<open>N\<close> routings for \<open>N\<close> JSON lines; the chunk has the effect of handling its
  non-empty lines in order, and every empty segment, the trailing one included, produces
  no routing and no other effect.
\<close>

theorem dispatcher_routes_each_line:
  assumes "\<forall>l\<in>set ls. CHR 0x0A \<notin> set l"
    and "\<forall>l\<in>set ls. l \<noteq> [] \<longrightarrow> (\<forall>s. fst (handleOneResponseForDocument parse d l s) = Inr ())"
  shows "handleFStarResponseForDocument parse d (lines_chunk ls) s =
           forEach (handleOneResponseForDocument parse d) (filter (\<lambda>l. l \<noteq> []) ls) s
       \<and> fst (handleFStarResponseForDocument parse d (lines_chunk ls) s) = Inr ()
       \<and> length (routed (snd (handleFStarResponseForDocument parse d (lines_chunk ls) s))) =
           length (routed s) + length (filter (\<lambda>l. l \<noteq> []) ls)
       \<and> ((\<forall>l\<in>set ls. l \<noteq> []) \<longrightarrow>
            length (routed (snd (handleFStarResponseForDocument parse d (lines_chunk ls) s))) =
              length (routed s) + length ls)
       \<and> handleOneResponseForDocument parse d [] s = (Inr (), s)"
proof -
  have "\<forall>l\<in>set (filter (\<lambda>l. l \<noteq> []) ls).
          l \<noteq> [] \<longrightarrow> (\<forall>s. fst (handleOneResponseForDocument parse d l s) = Inr ())"
    using assms(2) by simp
  from forEach_lines_routed [OF this, of s]
  have main: "fst (handleFStarResponseForDocument parse d (lines_chunk ls) s) = Inr ()
       \<and> length (routed (snd (handleFStarResponseForDocument parse d (lines_chunk ls) s))) =
           length (routed s) + length (filter (\<lambda>l. l \<noteq> []) ls)"
    by (simp add: dispatcher_whole_lines [OF assms(1)])
  have "(\<forall>l\<in>set ls. l \<noteq> []) \<longrightarrow> filter (\<lambda>l. l \<noteq> []) ls = ls"
    by (simp add: filter_id_conv)
  with main show ?thesis
    by (auto simp: dispatcher_whole_lines [OF assms(1)] handleOne_empty)
qed

text \<open>
  Witness for C3: two JSON lines with an empty segment between them and one after, two
  routings.
\<close>

theorem dispatcher_routes_each_line_witness:
  "routed (snd (handleFStarResponseForDocument JSON_parse
       \<lparr> uri = ''file:///a.fst'', getText = ''let x = 1'' \<rparr>
       ''{\"kind\":\"protocol-info\"}\<newline>\<newline>{\"kind\":\"protocol-info\"}\<newline>'' init_server)) =
     [ToProtocolInfo, ToProtocolInfo]"
  using dispatcher_routes_each_line
    [of "[''{\"kind\":\"protocol-info\"}'', [], ''{\"kind\":\"protocol-info\"}'']" JSON_parse
        "\<lparr> uri = ''file:///a.fst'', getText = ''let x = 1'' \<rparr>" init_server]
  by (simp add: lines_chunk_def handleOneResponseForDocument_def parse_protocol_info
                route_protocol_info init_server_def)

text \<open>
  Counterexample to C3 as stated: the handler of a line throws.  Both lines of this
  chunk are JSON; the first is a failure response whose entry has no range, so the
  failure handler throws, the exception leaves the loop over the lines, and the second
  line is never routed: one routing for \<open>N = 2\<close>.
\<close>

theorem dispatcher_handler_exception_skips_lines:
  "JSON_parse ''{\"kind\":\"response\",\"status\":\"failure\",\"response\":[{\"message\":\"m\",\"ranges\":[]}]}'' \<noteq> None
   \<and> JSON_parse ''{\"kind\":\"protocol-info\"}'' \<noteq> None
   \<and> fst (handleFStarResponseForDocument JSON_parse \<lparr> uri = ''file:///a.fst'', getText = ''let x = 1'' \<rparr>
       ''{\"kind\":\"response\",\"status\":\"failure\",\"response\":[{\"message\":\"m\",\"ranges\":[]}]}\<newline>{\"kind\":\"protocol-info\"}\<newline>''
       init_server) = Inl TypeError
   \<and> routed (snd (handleFStarResponseForDocument JSON_parse \<lparr> uri = ''file:///a.fst'', getText = ''let x = 1'' \<rparr>
       ''{\"kind\":\"response\",\"status\":\"failure\",\"response\":[{\"message\":\"m\",\"ranges\":[]}]}\<newline>{\"kind\":\"protocol-info\"}\<newline>''
       init_server)) = [ToFailure]"
  by (simp add: handleFStarResponseForDocument_def handleOneResponseForDocument_def
                parse_failure_without_range parse_protocol_info route_message_def if_else_def get_prop_def
                loose_eq_def and_also_def failure_branch_def truthy_def as_IdeError_array_def
                as_IdeError_def handleIdeFailure_def handleIdeFailure_entry_def index_def
                record_route_def init_server_def)




subsection \<open>The query encoder\<close>

lemma sendRequestForDocument_registered:
  assumes "map_of (documentState s) (uri d) = Some st"
  shows "sendRequestForDocument d msg s =
           s\<lparr> documentState :=
                 AList.update (uri d) (st\<lparr> last_query_id := last_query_id st + 1 \<rparr>) (documentState s),
               children :=
                 (children s)[fstar_ide st :=
                    (children s ! fstar_ide st)\<lparr> stdin :=
                       stdin (children s ! fstar_ide st) @ query_written (last_query_id st) msg \<rparr>] \<rparr>"
  using assms
  by (cases "fstar_ide st < length (children s)")
     (simp_all add: sendRequestForDocument_def stdin_write_def index_def query_written_def
                    Let_def list_update_beyond not_less)

text \<open>Without a session for the document the call does nothing.\<close>

lemma sendRequestForDocument_unregistered:
  "map_of (documentState s) (uri d) = None \<Longrightarrow> sendRequestForDocument d msg s = s"
  by (simp add: sendRequestForDocument_def)

lemma query_id_query_written:
  "map query_id (query_written qid msg) = [Some (qid + 1), None]"
  by (simp add: query_written_def query_id_def update_conv' read_nat_show_nat)

lemma send_all_from:
  assumes "map_of (documentState s) (uri d) = Some st" "fstar_ide st < length (children s)"
  shows "stdin (children (send_all d msgs s) ! fstar_ide st) =
           stdin (children s ! fstar_ide st) @
           concat (map (\<lambda>(i, msg). query_written (last_query_id st + i) msg) (enumerate 0 msgs))
         \<and> map_of (documentState (send_all d msgs s)) (uri d) =
             Some (st\<lparr> last_query_id := last_query_id st + length msgs \<rparr>)"
  using assms
proof (induction msgs arbitrary: s st)
  case Nil
  then show ?case by simp
next
  case (Cons msg msgs)
  let ?s1 = "sendRequestForDocument d msg s"
  let ?st1 = "st\<lparr> last_query_id := last_query_id st + 1 \<rparr>"
  have s1: "map_of (documentState ?s1) (uri d) = Some ?st1"
    by (simp add: sendRequestForDocument_registered [OF Cons.prems(1)] update_conv')
  have len: "fstar_ide ?st1 < length (children ?s1)"
    using Cons.prems(2) by (simp add: sendRequestForDocument_registered [OF Cons.prems(1)])
  have w: "stdin (children ?s1 ! fstar_ide st) =
             stdin (children s ! fstar_ide st) @ query_written (last_query_id st) msg"
    using Cons.prems(2) by (simp add: sendRequestForDocument_registered [OF Cons.prems(1)])
  have shift: "map (\<lambda>(i, m). query_written (last_query_id st + i) m) (enumerate (Suc 0) msgs) =
               map (\<lambda>(i, m). query_written (last_query_id ?st1 + i) m) (enumerate 0 msgs)"
    by (simp add: enumerate_Suc_eq map_prod_def comp_def split_def)
  from Cons.IH [OF s1 len] w shift show ?case
    by simp
qed

lemma map_filter_query_ids:
  "List.map_filter query_id
     (concat (map (\<lambda>(i, msg). query_written (k + i) msg) (enumerate 0 msgs))) =
   [Suc k ..< Suc (k + length msgs)]"
proof (induction msgs arbitrary: k)
  case Nil
  show ?case by (simp add: List.map_filter_simps)
next
  case (Cons msg msgs)
  have shift: "map (\<lambda>(i, m). query_written (k + i) m) (enumerate (Suc 0) msgs) =
               map (\<lambda>(i, m). query_written (Suc k + i) m) (enumerate 0 msgs)"
    by (simp add: enumerate_Suc_eq map_prod_def comp_def split_def)
  have one: "List.map_filter query_id (query_written k msg) = [Suc k]"
    by (simp add: List.map_filter_def query_id_query_written query_written_def query_id_def
                  update_conv' read_nat_show_nat)
  have "List.map_filter query_id
          (concat (map (\<lambda>(i, msg). query_written (k + i) msg) (enumerate 0 (msg # msgs)))) =
        Suc k # [Suc (Suc k) ..< Suc (Suc k + length msgs)]"
    using Cons [of "Suc k"] one shift by (simp add: List.map_filter_def)
  also have "\<dots> = [Suc k ..< Suc (k + length (msg # msgs))]"
    by (subst (2) upt_conv_Cons) simp_all
  finally show ?case .
qed

text \<open>
  C4.  For every session whose counter is \<open>0\<close>, successive calls of the query-send
  operation assign the query ids \<open>1, 2, 3, \<dots>\<close>: the \<open>i\<close>-th call writes its query
  object stamped with the decimal text of \<open>i\<close> as \<^verbatim>\<open>query-id\<close>, followed by a
  newline, to the session's child process; read as numbers the ids written by \<open>n\<close>
  calls are exactly \<open>1, \<dots>, n\<close>, strictly increasing and without a gap; the counter is
  \<open>n\<close> afterwards; and different numbers have different decimal texts, so no id is
  used twice.
\<close>

theorem query_ids_gapless:
  assumes "map_of (documentState s) (uri d) = Some st"
    and "last_query_id st = 0"
    and "fstar_ide st < length (children s)"
  shows "stdin (children (send_all d msgs s) ! fstar_ide st) =
           stdin (children s ! fstar_ide st) @
           concat (map (\<lambda>(i, msg). query_written i msg) (enumerate 0 msgs))
       \<and> List.map_filter query_id
           (concat (map (\<lambda>(i, msg). query_written i msg) (enumerate 0 msgs))) =
           [1 ..< Suc (length msgs)]
       \<and> map_of (documentState (send_all d msgs s)) (uri d) =
           Some (st\<lparr> last_query_id := length msgs \<rparr>)
       \<and> inj show_nat"
  using send_all_from [OF assms(1,3), of msgs] map_filter_query_ids [of 0 msgs] assms(2)
  by (simp add: inj_show_nat)

text \<open>
  Witness for C4: the first query carries the id \<^verbatim>\<open>"1"\<close>, the second
  \<^verbatim>\<open>"2"\<close>.
\<close>

theorem query_ids_gapless_witness:
  "stdin (children (send_all \<lparr> uri = ''file:///a.fst'', getText = ''let x = 1'' \<rparr>
       [[(''query'', JString ''vfs-add'')], [(''query'', JString ''full-buffer'')]]
       (init_server
          \<lparr> documentState := [(''file:///a.fst'', \<lparr> fstar_ide = 0, last_query_id = 0 \<rparr>)],
            children := [\<lparr> command = ''fstar.exe'', args = [''--ide'', ''a.fst''], cwd = ''/'',
                           running = True, stdin = [], on_data = None \<rparr>] \<rparr>)) ! 0) =
     [Stringified [(''query'', JString ''vfs-add''), (''query-id'', JString ''1'')],
      Text ''\<newline>'',
      Stringified [(''query'', JString ''full-buffer''), (''query-id'', JString ''2'')],
      Text ''\<newline>'']"
  using query_ids_gapless
    [of "init_server
          \<lparr> documentState := [(''file:///a.fst'', \<lparr> fstar_ide = 0, last_query_id = 0 \<rparr>)],
            children := [\<lparr> command = ''fstar.exe'', args = [''--ide'', ''a.fst''], cwd = ''/'',
                           running = True, stdin = [], on_data = None \<rparr>] \<rparr>"
        "\<lparr> uri = ''file:///a.fst'', getText = ''let x = 1'' \<rparr>"
        "\<lparr> fstar_ide = 0, last_query_id = 0 \<rparr>"
        "[[(''query'', JString ''vfs-add'')], [(''query'', JString ''full-buffer'')]]"]
  by (simp add: init_server_def query_written_def enumerate_eq_zip show_nat_1 show_nat_2)

text \<open>
  C8.  For every send performed on a session, the value of the session's counter at
  the time of the send equals the query id assigned to that send minus one: the send
  writes one query \<open>w\<close> and a newline to the session's child process, the id \<open>k\<close> that
  \<open>w\<close> carries is positive, the counter before the send is \<open>k - 1\<close>, and the counter
  after it is \<open>k\<close>.
\<close>

theorem counter_is_query_id_minus_one:
  assumes "map_of (documentState s) (uri d) = Some st"
    and "fstar_ide st < length (children s)"
  shows "\<exists>w k. stdin (children (sendRequestForDocument d msg s) ! fstar_ide st) =
                 stdin (children s ! fstar_ide st) @ [w, Text [CHR 0x0A]]
             \<and> query_id w = Some k \<and> 0 < k \<and> last_query_id st = k - 1
             \<and> map_of (documentState (sendRequestForDocument d msg s)) (uri d) =
                 Some (st\<lparr> last_query_id := k \<rparr>)"
proof -
  let ?w = "Stringified (AList.update ''query-id'' (JString (show_nat (last_query_id st + 1))) msg)"
  have "stdin (children (sendRequestForDocument d msg s) ! fstar_ide st) =
          stdin (children s ! fstar_ide st) @ [?w, Text [CHR 0x0A]]"
    using assms(2)
    by (simp add: sendRequestForDocument_registered [OF assms(1)] query_written_def)
  moreover have "query_id ?w = Some (last_query_id st + 1)"
    by (simp add: query_id_def update_conv' read_nat_show_nat)
  moreover have "map_of (documentState (sendRequestForDocument d msg s)) (uri d) =
                   Some (st\<lparr> last_query_id := last_query_id st + 1 \<rparr>)"
    by (simp add: sendRequestForDocument_registered [OF assms(1)] update_conv')
  ultimately show ?thesis by (intro exI [of _ ?w] exI [of _ "last_query_id st + 1"]) simp
qed

text \<open>Witness for C8: a send with the counter at \<open>1\<close> assigns the id \<open>2\<close>.\<close>

theorem counter_is_query_id_minus_one_witness:
  "stdin (children (sendRequestForDocument \<lparr> uri = ''file:///a.fst'', getText = ''let x = 1'' \<rparr>
       [(''query'', JString ''full-buffer'')]
       (init_server
          \<lparr> documentState := [(''file:///a.fst'', \<lparr> fstar_ide = 0, last_query_id = 1 \<rparr>)],
            children := [\<lparr> command = ''fstar.exe'', args = [''--ide'', ''a.fst''], cwd = ''/'',
                           running = True, stdin = [], on_data = None \<rparr>] \<rparr>)) ! 0) =
     [Stringified [(''query'', JString ''full-buffer''), (''query-id'', JString ''2'')],
      Text ''\<newline>'']
   \<and> query_id (Stringified [(''query'', JString ''full-buffer''), (''query-id'', JString ''2'')]) =
       Some 2
   \<and> (1::nat) = 2 - 1"
  using counter_is_query_id_minus_one
    [of "init_server
          \<lparr> documentState := [(''file:///a.fst'', \<lparr> fstar_ide = 0, last_query_id = 1 \<rparr>)],
            children := [\<lparr> command = ''fstar.exe'', args = [''--ide'', ''a.fst''], cwd = ''/'',
                           running = True, stdin = [], on_data = None \<rparr>] \<rparr>"
        "\<lparr> uri = ''file:///a.fst'', getText = ''let x = 1'' \<rparr>"
        "\<lparr> fstar_ide = 0, last_query_id = 1 \<rparr>"
        "[(''query'', JString ''full-buffer'')]"]
  by (simp add: init_server_def sendRequestForDocument_def stdin_write_def index_def Let_def
                show_nat_2 query_id_def read_nat_def is_digit_def digits_value_def)

subsection \<open>The document lifecycle and the session registry\<close>

lemma handleIdeProgress_frame:
  "documentState (snd (handleIdeProgress d c s)) = documentState s
   \<and> children (snd (handleIdeProgress d c s)) = children s"
  by (simp add: handleIdeProgress_def sendStatusOk_def send_def console_log_def
           split: sum.splits)

lemma handleIdeFailure_entry_frame:
  "documentState (snd (handleIdeFailure_entry d err s)) = documentState s
   \<and> children (snd (handleIdeFailure_entry d err s)) = children s"
  by (simp add: handleIdeFailure_entry_def send_def Let_def split: option.splits)

lemma handleIdeFailure_frame:
  "documentState (snd (handleIdeFailure d response s)) = documentState s
   \<and> children (snd (handleIdeFailure d response s)) = children s"
  unfolding handleIdeFailure_def
  by (intro conjI forEach_frame) (simp_all add: handleIdeFailure_entry_frame)

lemma route_message_frame:
  "documentState (snd (route_message d r s)) = documentState s
   \<and> children (snd (route_message d r s)) = children s"
  by (simp add: route_message_def if_else_def failure_branch_def unhandled_branch_def
                handleIdeProtocolInfo_def handleIdeSuccess_def
                handleIdeProgress_frame handleIdeFailure_frame record_route_def console_log_def
           split: option.splits sum.splits)

lemma handleOne_frame:
  "documentState (snd (handleOneResponseForDocument parse d l s)) = documentState s
   \<and> children (snd (handleOneResponseForDocument parse d l s)) = children s"
  by (simp add: handleOneResponseForDocument_def route_message_frame split: option.splits)

text \<open>Output of a child changes neither the registry nor the children.\<close>

lemma stdout_data_frame:
  "documentState (snd (stdout_data parse p data s)) = documentState s
   \<and> children (snd (stdout_data parse p data s)) = children s"
  unfolding stdout_data_def handleFStarResponseForDocument_def
  by (auto split: option.splits intro!: forEach_frame simp: handleOne_frame)

lemma sendRequestForDocument_documentState:
  "documentState (sendRequestForDocument d msg s) =
     (case map_of (documentState s) (uri d) of
        None \<Rightarrow> documentState s
      | Some st \<Rightarrow>
          AList.update (uri d) (st\<lparr> last_query_id := last_query_id st + 1 \<rparr>) (documentState s))"
  by (simp add: sendRequestForDocument_def stdin_write_def index_def Let_def split: option.splits)

lemma sendRequestForDocument_length_children:
  "length (children (sendRequestForDocument d msg s)) = length (children s)"
  by (simp add: sendRequestForDocument_def stdin_write_def index_def Let_def split: option.splits)

lemma onDidOpen_documentState:
  "documentState (onDidOpen fsPath dirname basename d s) =
     AList.update (uri d) \<lparr> fstar_ide = length (children s), last_query_id = 1 \<rparr> (documentState s)"
  by (simp add: onDidOpen_def spawn_def stdout_on_data_def index_def console_log_def Let_def
                sendRequestForDocument_documentState update_conv')

lemma onDidOpen_length_children:
  "length (children (onDidOpen fsPath dirname basename d s)) = Suc (length (children s))"
  by (simp add: onDidOpen_def spawn_def stdout_on_data_def index_def console_log_def Let_def
                sendRequestForDocument_length_children)

lemma validateFStarDocument_documentState:
  "documentState (validateFStarDocument d s) =
     (case map_of (documentState s) (uri d) of
        None \<Rightarrow> documentState s
      | Some st \<Rightarrow>
          AList.update (uri d) (st\<lparr> last_query_id := last_query_id st + 1 \<rparr>) (documentState s))"
  by (simp add: validateFStarDocument_def sendRequestForDocument_documentState sendStatusClear_def
                send_def console_log_def Let_def split: option.splits)

lemma validateFStarDocument_length_children:
  "length (children (validateFStarDocument d s)) = length (children s)"
  by (simp add: validateFStarDocument_def sendRequestForDocument_length_children Let_def
                sendStatusClear_def send_def console_log_def)



lemma react_handles_valid:
  assumes "\<forall>u st. map_of (documentState s) u = Some st \<longrightarrow> fstar_ide st < length (children s)"
  shows "\<forall>u st. map_of (documentState (snd (react parse fsPath dirname basename ev s))) u = Some st
           \<longrightarrow> fstar_ide st < length (children (snd (react parse fsPath dirname basename ev s)))"
proof (cases ev)
  case (DidOpen d)
  with assms show ?thesis
    by (auto simp: onDidOpen_documentState onDidOpen_length_children update_conv' less_Suc_eq
             split: if_splits)
next
  case (DidChangeContent d)
  with assms show ?thesis
    by (auto simp: onDidChangeContent_def validateFStarDocument_documentState
                   validateFStarDocument_length_children update_conv'
             split: option.splits if_splits)
next
  case (DidClose d)
  with assms show ?thesis by (simp add: onDidClose_def)
next
  case (StdoutData p data)
  with assms show ?thesis by (simp add: stdout_data_frame)
qed

text \<open>
  In every reachable state the process of a registered session is one of the children:
  the hypothesis on the handle in the two theorems about the query encoder holds there.
\<close>

lemma reachable_handles_valid:
  "reachable parse fsPath dirname basename s \<Longrightarrow> map_of (documentState s) u = Some st \<Longrightarrow>
   fstar_ide st < length (children s)"
proof (induction arbitrary: u st rule: reachable.induct)
  case reachable_init
  then show ?case by (simp add: init_server_def)
next
  case (reachable_step s ev)
  from reachable_step.IH
  have "\<forall>u st. map_of (documentState s) u = Some st \<longrightarrow> fstar_ide st < length (children s)"
    by blast
  from react_handles_valid [OF this] reachable_step.prems show ?case by blast
qed



text \<open>The state after the document \<^verbatim>\<open>file:///a.fst\<close> is opened in the initial state.\<close>

lemma open_a_fst:
  "onDidOpen (drop 7) (take 1) (drop 1) \<lparr> uri = ''file:///a.fst'', getText = ''let x = 1'' \<rparr>
     init_server =
     \<lparr> documentSettings = [],
       documentState = [(''file:///a.fst'', \<lparr> fstar_ide = 0, last_query_id = 1 \<rparr>)],
       children =
         [\<lparr> command = ''fstar.exe'', args = [''--ide'', ''a.fst''], cwd = ''/'', running = True,
            stdin = [Stringified [(''query'', JString ''vfs-add''),
                                  (''args'', JObject [(''filename'', JNull),
                                                      (''contents'', JString ''let x = 1'')]),
                                  (''query-id'', JString ''1'')],
                     Text ''\<newline>''],
            on_data = Some \<lparr> uri = ''file:///a.fst'', getText = ''let x = 1'' \<rparr> \<rparr>],
       connection = [],
       console = [''onDidOpen(dir=/, file=a.fst''],
       routed = [] \<rparr>"
  by (simp add: onDidOpen_def spawn_def stdout_on_data_def index_def console_log_def Let_def
                sendRequestForDocument_def stdin_write_def init_server_def show_nat_1)



text \<open>
  The child process of the replaced session is untouched by the second open: it is
  still among the children, as it was.
\<close>

lemma reopen_leaves_old_child:
  assumes "i < length (children s)"
  shows "children (onDidOpen fsPath dirname basename d s) ! i = children s ! i"
  using assms
  by (simp add: onDidOpen_def spawn_def stdout_on_data_def index_def console_log_def Let_def
                sendRequestForDocument_def stdin_write_def update_conv' nth_append)

text \<open>
  C7, as amended.  Performing the document-close operation removes the document's
  cached settings and nothing else: the session registry and the child processes are
  as before.  So for every open document whose session owns a running subprocess, after
  the close the session is still registered and its subprocess is still running.
\<close>

theorem onDidClose_keeps_session:
  "(map_of (documentState s) (uri d) = Some st \<longrightarrow>
      index (children s) (fstar_ide st) = Some child \<longrightarrow> running child \<longrightarrow>
        map_of (documentState (onDidClose d s)) (uri d) = Some st
      \<and> index (children (onDidClose d s)) (fstar_ide st) = Some child)
   \<and> documentState (onDidClose d s) = documentState s
   \<and> children (onDidClose d s) = children s
   \<and> map_of (documentSettings (onDidClose d s)) (uri d) = None"
  by (simp add: onDidClose_def delete_conv')

text \<open>Witness for C7: a registered session with a running child, closed.\<close>

theorem onDidClose_keeps_session_witness:
  "map_of (documentState (onDidClose \<lparr> uri = ''file:///a.fst'', getText = ''let x = 1'' \<rparr>
      (init_server
         \<lparr> documentSettings := [(''file:///a.fst'', \<lparr> maxNumberOfProblems = 1000 \<rparr>)],
           documentState := [(''file:///a.fst'', \<lparr> fstar_ide = 0, last_query_id = 2 \<rparr>)],
           children := [\<lparr> command = ''fstar.exe'', args = [''--ide'', ''a.fst''], cwd = ''/'',
                          running = True, stdin = [], on_data = None \<rparr>] \<rparr>))) ''file:///a.fst'' =
     Some \<lparr> fstar_ide = 0, last_query_id = 2 \<rparr>
   \<and> index (children (onDidClose \<lparr> uri = ''file:///a.fst'', getText = ''let x = 1'' \<rparr>
      (init_server
         \<lparr> documentSettings := [(''file:///a.fst'', \<lparr> maxNumberOfProblems = 1000 \<rparr>)],
           documentState := [(''file:///a.fst'', \<lparr> fstar_ide = 0, last_query_id = 2 \<rparr>)],
           children := [\<lparr> command = ''fstar.exe'', args = [''--ide'', ''a.fst''], cwd = ''/'',
                          running = True, stdin = [], on_data = None \<rparr>] \<rparr>))) 0 =
     Some \<lparr> command = ''fstar.exe'', args = [''--ide'', ''a.fst''], cwd = ''/'',
            running = True, stdin = [], on_data = None \<rparr>
   \<and> documentSettings (onDidClose \<lparr> uri = ''file:///a.fst'', getText = ''let x = 1'' \<rparr>
      (init_server
         \<lparr> documentSettings := [(''file:///a.fst'', \<lparr> maxNumberOfProblems = 1000 \<rparr>)],
           documentState := [(''file:///a.fst'', \<lparr> fstar_ide = 0, last_query_id = 2 \<rparr>)],
           children := [\<lparr> command = ''fstar.exe'', args = [''--ide'', ''a.fst''], cwd = ''/'',
                          running = True, stdin = [], on_data = None \<rparr>] \<rparr>)) = []"
  using onDidClose_keeps_session
    [of "init_server
         \<lparr> documentSettings := [(''file:///a.fst'', \<lparr> maxNumberOfProblems = 1000 \<rparr>)],
           documentState := [(''file:///a.fst'', \<lparr> fstar_ide = 0, last_query_id = 2 \<rparr>)],
           children := [\<lparr> command = ''fstar.exe'', args = [''--ide'', ''a.fst''], cwd = ''/'',
                          running = True, stdin = [], on_data = None \<rparr>] \<rparr>"
        "\<lparr> uri = ''file:///a.fst'', getText = ''let x = 1'' \<rparr>"
        "\<lparr> fstar_ide = 0, last_query_id = 2 \<rparr>"
        "\<lparr> command = ''fstar.exe'', args = [''--ide'', ''a.fst''], cwd = ''/'',
           running = True, stdin = [], on_data = None \<rparr>"]
  by (simp add: init_server_def onDidClose_def index_def)

text \<open>
  Counterexample to C7 as stated.  The document \<^verbatim>\<open>file:///a.fst\<close> is opened in
  the initial state, which spawns the child \<open>0\<close>, and then closed: its session is
  still in the registry and the one child is still running.
\<close>

theorem onDidClose_leaves_subprocess_running:
  "map_of (documentState
      (onDidClose \<lparr> uri = ''file:///a.fst'', getText = ''let x = 1'' \<rparr>
        (onDidOpen (drop 7) (take 1) (drop 1)
           \<lparr> uri = ''file:///a.fst'', getText = ''let x = 1'' \<rparr> init_server)))
     ''file:///a.fst'' = Some \<lparr> fstar_ide = 0, last_query_id = 1 \<rparr>
   \<and> map running (children
      (onDidClose \<lparr> uri = ''file:///a.fst'', getText = ''let x = 1'' \<rparr>
        (onDidOpen (drop 7) (take 1) (drop 1)
           \<lparr> uri = ''file:///a.fst'', getText = ''let x = 1'' \<rparr> init_server))) = [True]"
  unfolding open_a_fst by (simp add: onDidClose_def)

subsection \<open>A session from open to diagnostic\<close>

lemma parse_failure_response:
  "JSON_parse ''{\"kind\":\"response\",\"status\":\"failure\",\"response\":[{\"message\":\"syntax error\",\"ranges\":[{\"beg\":[1,4],\"end\":[1,5]}]}]}'' =
   Some (JObject
     [(''kind'', JString ''response''), (''status'', JString ''failure''),
      (''response'',
       JArray [JObject [(''message'', JString ''syntax error''),
                        (''ranges'', JArray [JObject [(''beg'', JArray [JNumber 1, JNumber 4]),
                                                      (''end'', JArray [JNumber 1, JNumber 5])]])]])])"
  by code_simp

text \<open>
  The document \<^verbatim>\<open>file:///a.fst\<close> with the text \<^verbatim>\<open>let x = 1\<close> is opened and its
  content validated, and the child answers with a failure for the range from \<open>[1, 4]\<close>
  to \<open>[1, 5]\<close>: the server has cleared the diagnostics and the status and then published
  one diagnostic from \<open>(0, 4)\<close> to \<open>(0, 5)\<close>, and the child has received two queries,
  with the ids \<open>1\<close> and \<open>2\<close>.
\<close>

lemma open_change_failure_scenario:
  "connection (snd (stdout_data JSON_parse 0
      ''{\"kind\":\"response\",\"status\":\"failure\",\"response\":[{\"message\":\"syntax error\",\"ranges\":[{\"beg\":[1,4],\"end\":[1,5]}]}]}\<newline>''
      (onDidChangeContent \<lparr> uri = ''file:///a.fst'', getText = ''let x = 1'' \<rparr>
        (onDidOpen (drop 7) (take 1) (drop 1)
           \<lparr> uri = ''file:///a.fst'', getText = ''let x = 1'' \<rparr> init_server)))) =
     [PublishDiagnostics ''file:///a.fst'' [],
      CustomStatusClear ''file:///a.fst'',
      PublishDiagnostics ''file:///a.fst''
        [\<lparr> severity = Error,
           range' = \<lparr> start = \<lparr> line = Num 0, character = Num 4 \<rparr>,
                      end' = \<lparr> line = Num 0, character = Num 5 \<rparr> \<rparr>,
           Diagnostic.message = ''syntax error'' \<rparr>]]
   \<and> map query_id (stdin (children (snd (stdout_data JSON_parse 0
      ''{\"kind\":\"response\",\"status\":\"failure\",\"response\":[{\"message\":\"syntax error\",\"ranges\":[{\"beg\":[1,4],\"end\":[1,5]}]}]}\<newline>''
      (onDidChangeContent \<lparr> uri = ''file:///a.fst'', getText = ''let x = 1'' \<rparr>
        (onDidOpen (drop 7) (take 1) (drop 1)
           \<lparr> uri = ''file:///a.fst'', getText = ''let x = 1'' \<rparr> init_server)))) ! 0)) =
     [Some 1, None, Some 2, None]"
  unfolding open_a_fst
  by (simp add: onDidChangeContent_def validateFStarDocument_def sendStatusClear_def send_def
                console_log_def sendRequestForDocument_def stdin_write_def Let_def
                stdout_data_def index_def handleFStarResponseForDocument_def
                handleOneResponseForDocument_def parse_failure_response route_message_def if_else_def
                get_prop_def loose_eq_def and_also_def failure_branch_def truthy_def
                as_IdeError_array_def as_IdeError_def
                as_IdeRange_def as_number_array_def handleIdeFailure_def
                handleIdeFailure_entry_def mkPosition_def record_route_def
                query_id_def read_nat_def is_digit_def digits_value_def show_nat_2)

end
